theory Spec2Isabelle
  imports Complex_Main "HOL-Library.AList"
begin

section \<open>Data model\<close>

text \<open>
  The entities of \<^verbatim>\<open>types/article.ts\<close> and \<^verbatim>\<open>types/quiz.ts\<close>, one record per
  TypeScript interface, an optional field \<^verbatim>\<open>f?: T\<close> as \<open>T option\<close>.

  Representation of the JavaScript values:
  \<^item> a \<^verbatim>\<open>number\<close> is a \<open>rat\<close>: the finite numbers; NaN and the infinities, which a
    JSON payload cannot carry, are left out;
  \<^item> a timestamp string (ISO-8601, what \<^verbatim>\<open>toISOString\<close> prints and \<^verbatim>\<open>new Date(s)\<close>
    reads) is represented by the instant it denotes, in milliseconds since the epoch.
  The field \<^verbatim>\<open>id\<close> is written \<open>id'\<close>.
\<close>

type_synonym number = rat
type_synonym timestamp = int

text \<open>
  \<open>article_summary\<close> has the eight fields that \<^verbatim>\<open>saveArticlesOffline\<close> copies into the
  list record; \<open>article\<close> is the interface \<^verbatim>\<open>Article\<close>, which adds \<^verbatim>\<open>content\<close> and
  \<^verbatim>\<open>image_url\<close>.
\<close>

record article_summary =
  id' :: string
  title :: string
  summary :: string
  is_premium :: bool
  created_at :: timestamp
  updated_at :: timestamp
  category :: "string option"
  reading_time_minutes :: "number option"

record article = article_summary +
  content :: string
  image_url :: "string option"

record article_progress =
  id' :: string
  user_id :: string
  article_id :: string
  completed :: bool
  last_read_at :: timestamp
  created_at :: timestamp

record quiz_question =
  id' :: string
  quiz_id :: string
  question_text :: string
  options :: "string list"
  correct_option :: number
  explanation :: "string option"
  question_order :: number
  created_at :: timestamp
  updated_at :: timestamp

text \<open>The joined \<^verbatim>\<open>articles\<close> object of a quiz and the joined \<^verbatim>\<open>quizzes\<close> object of an attempt.\<close>

record article_ref =
  id' :: string
  title :: string

record quiz_ref =
  id' :: string
  title :: string
  article_id :: string

text \<open>
  \<open>quiz_summary\<close> has the nine fields that \<^verbatim>\<open>saveQuizzesOffline\<close> copies into the list
  record; \<open>quiz\<close> is the interface \<^verbatim>\<open>Quiz\<close>, which adds \<^verbatim>\<open>questions\<close>.
\<close>

record quiz_summary =
  id' :: string
  title :: string
  description :: "string option"
  article_id :: string
  time_limit_minutes :: "number option"
  passing_score :: number
  created_at :: timestamp
  updated_at :: timestamp
  articles :: "article_ref option"

record quiz = quiz_summary +
  questions :: "quiz_question list option"

record quiz_attempt =
  id' :: string
  user_id :: string
  quiz_id :: string
  score :: number
  completed_at :: timestamp
  created_at :: timestamp
  quizzes :: "quiz_ref option"

record quiz_answer =
  id' :: string
  attempt_id :: string
  question_id :: string
  selected_option :: number
  created_at :: timestamp

text \<open>The argument type of \<^verbatim>\<open>saveQuizAttempt\<close>'s \<^verbatim>\<open>answers\<close>.\<close>

record user_quiz_answer =
  questionId :: string
  selectedOption :: number

section \<open>The environment: key-value store, connectivity, backend, clock, console\<close>

text \<open>
  What the key-value store holds. A stored string is represented by what it denotes:
  the output of \<^verbatim>\<open>JSON.stringify\<close> by the value it serialises (\<open>Json_text\<close>), the output
  of \<^verbatim>\<open>toISOString\<close> by its instant (\<open>Iso_text\<close>). \<^verbatim>\<open>JSON.parse\<close> gives the value of a
  \<open>Json_text\<close> back and throws a SyntaxError on an \<open>Iso_text\<close>, which is not JSON.
\<close>

datatype json =
    Article_list "article_summary list"
  | Article_obj article
  | Quiz_list "quiz_summary list"
  | Quiz_obj quiz

datatype payload = Json_text json | Iso_text timestamp

datatype js_error =
    Storage_error string
  | Syntax_error
  | Type_error
  | Postgrest_error string
  | Error string

text \<open>A line of the console: \<^verbatim>\<open>console.error(label, e)\<close> or \<^verbatim>\<open>console.log(text)\<close>.\<close>

datatype log_line = Console_error string js_error | Console_log string

text \<open>The outbound calls that are recorded: a write to the store, a request to the backend.\<close>

datatype call = Storage_setItem string | Storage_multiRemove "string list" | Remote_request string

text \<open>
  The backend, as far as the services query it: the rows of each table, the tables whose
  requests the backend answers with an error (\<open>faults\<close>), and the counter it draws the
  identifiers of inserted rows from.
\<close>

record backend =
  articles_rows :: "article list"
  quizzes_rows :: "quiz_summary list"
  quiz_questions_rows :: "quiz_question list"
  quiz_attempts_rows :: "quiz_attempt list"
  quiz_answers_rows :: "quiz_answer list"
  user_article_progress_rows :: "article_progress list"
  faults :: "(string \<times> js_error) list"
  next_id :: nat

text \<open>
  The state every operation runs in. \<open>storage\<close> is the content of AsyncStorage;
  \<open>write_rejected\<close> and \<open>read_rejected\<close> list the keys on which the store rejects a
  write or a read (a storage failure); \<open>isConnected\<close> is what \<^verbatim>\<open>NetInfo.fetch()\<close>
  reports (\<open>None\<close> is JavaScript's \<^verbatim>\<open>null\<close>: unknown); \<open>clock\<close> is the time \<^verbatim>\<open>new Date()\<close>
  and \<^verbatim>\<open>Date.now()\<close> read.
\<close>

record world =
  storage :: "(string \<times> payload) list"
  write_rejected :: "string list"
  read_rejected :: "string list"
  isConnected :: "bool option"
  backend :: backend
  clock :: timestamp
  console :: "log_line list"
  calls :: "call list"

subsection \<open>Asynchronous code that may throw\<close>

text \<open>
  An \<^verbatim>\<open>async\<close> function is a state transformer whose result is either the error it
  throws (\<open>Inl\<close>) or the value it returns (\<open>Inr\<close>). \<open>await m f\<close> runs \<open>m\<close> and
  continues with \<open>f\<close> on its value; \<open>try_catch m h\<close> is \<^verbatim>\<open>try { m } catch (e) { h e }\<close>.
\<close>

type_synonym 'a io = "world \<Rightarrow> (js_error + 'a) \<times> world"

definition return :: "'a \<Rightarrow> 'a io" where
  "return x = (\<lambda>w. (Inr x, w))"

definition throw :: "js_error \<Rightarrow> 'a io" where
  "throw e = (\<lambda>w. (Inl e, w))"

definition await :: "'a io \<Rightarrow> ('a \<Rightarrow> 'b io) \<Rightarrow> 'b io" where
  "await m f = (\<lambda>w. case m w of (Inl e, w') \<Rightarrow> (Inl e, w') | (Inr x, w') \<Rightarrow> f x w')"

definition try_catch :: "'a io \<Rightarrow> (js_error \<Rightarrow> 'a io) \<Rightarrow> 'a io" where
  "try_catch m h = (\<lambda>w. case m w of (Inl e, w') \<Rightarrow> h e w' | (Inr x, w') \<Rightarrow> (Inr x, w'))"

text \<open>
  \<^verbatim>\<open>Promise.all\<close> over promises that were all created before it is awaited
  (\<^verbatim>\<open>xs.map(x => AsyncStorage.setItem(...))\<close> starts every write): every operation
  runs, in the order in which it was started, also after one of them was rejected, and the
  result is the first rejection if there is one. The state after the call is the state in
  which all of them have settled.
\<close>

fun Promise_all :: "unit io list \<Rightarrow> unit io" where
  "Promise_all [] = return ()"
| "Promise_all (p # ps) =
     (\<lambda>w. case p w of (r, w1) \<Rightarrow>
        (case Promise_all ps w1 of (rs, w2) \<Rightarrow>
           ((case r of Inl e \<Rightarrow> Inl e | Inr _ \<Rightarrow> rs), w2)))"

definition console_error :: "string \<Rightarrow> js_error \<Rightarrow> unit io" where
  "console_error label e = (\<lambda>w. (Inr (), w\<lparr>console := console w @ [Console_error label e]\<rparr>))"

definition console_log :: "string \<Rightarrow> unit io" where
  "console_log text = (\<lambda>w. (Inr (), w\<lparr>console := console w @ [Console_log text]\<rparr>))"

subsection \<open>AsyncStorage, JSON, Date\<close>

definition AsyncStorage_getItem :: "string \<Rightarrow> payload option io" where
  "AsyncStorage_getItem key = (\<lambda>w.
     if key \<in> set (read_rejected w) then (Inl (Storage_error key), w)
     else (Inr (map_of (storage w) key), w))"

definition AsyncStorage_setItem :: "string \<Rightarrow> payload \<Rightarrow> unit io" where
  "AsyncStorage_setItem key v = (\<lambda>w.
     if key \<in> set (write_rejected w)
     then (Inl (Storage_error key), w\<lparr>calls := calls w @ [Storage_setItem key]\<rparr>)
     else (Inr (), w\<lparr>storage := AList.update key v (storage w),
                      calls := calls w @ [Storage_setItem key]\<rparr>))"

definition AsyncStorage_getAllKeys :: "string list io" where
  "AsyncStorage_getAllKeys = (\<lambda>w. (Inr (map fst (storage w)), w))"

definition AsyncStorage_multiRemove :: "string list \<Rightarrow> unit io" where
  "AsyncStorage_multiRemove keys = (\<lambda>w.
     if \<exists>key \<in> set keys. key \<in> set (write_rejected w)
     then (Inl (Storage_error (hd (filter (\<lambda>key. key \<in> set (write_rejected w)) keys))),
           w\<lparr>calls := calls w @ [Storage_multiRemove keys]\<rparr>)
     else (Inr (), w\<lparr>storage := filter (\<lambda>(key, v). key \<notin> set keys) (storage w),
                      calls := calls w @ [Storage_multiRemove keys]\<rparr>))"

definition JSON_stringify :: "json \<Rightarrow> payload" where
  "JSON_stringify v = Json_text v"

fun JSON_parse :: "payload \<Rightarrow> json io" where
  "JSON_parse (Json_text v) = return v"
| "JSON_parse (Iso_text t) = throw Syntax_error"

text \<open>
  TypeScript's type assertions on a parsed value. The source does not check them: a value
  of another shape is handed on as it is, and its callers then fail at \<^verbatim>\<open>.filter\<close> or
  \<^verbatim>\<open>.find\<close>, outside the \<^verbatim>\<open>try\<close> of the function that read it, or pass the value on. Here
  a value of another shape throws at the assertion, inside that \<^verbatim>\<open>try\<close>. The two differ
  only in a store that holds, under one of the keys read, a record of another shape than
  the one written under that key. The operations that write the store never produce such a
  record (\<open>well_shaped\<close> below is kept by each of them). A theorem that speaks of every
  store states only what holds of the source in such a store as well.
\<close>

fun as_article_list :: "json \<Rightarrow> article_summary list io" where
  "as_article_list (Article_list xs) = return xs"
| "as_article_list _ = throw Type_error"

fun as_article :: "json \<Rightarrow> article option io" where
  "as_article (Article_obj a) = return (Some a)"
| "as_article _ = throw Type_error"

fun as_quiz_list :: "json \<Rightarrow> quiz_summary list io" where
  "as_quiz_list (Quiz_list xs) = return xs"
| "as_quiz_list _ = throw Type_error"

fun as_quiz :: "json \<Rightarrow> quiz option io" where
  "as_quiz (Quiz_obj q) = return (Some q)"
| "as_quiz _ = throw Type_error"

definition Date_toISOString :: "payload io" where
  "Date_toISOString = (\<lambda>w. (Inr (Iso_text (clock w)), w))"

definition Date_now :: "timestamp io" where
  "Date_now = (\<lambda>w. (Inr (clock w), w))"

text \<open>
  \<^verbatim>\<open>new Date(s).getTime()\<close>: the instant of a timestamp string, \<open>None\<close> (NaN, an invalid
  date) for a string that is not a timestamp.
\<close>

fun Date_getTime :: "payload \<Rightarrow> timestamp option" where
  "Date_getTime (Iso_text t) = Some t"
| "Date_getTime (Json_text v) = None"

section \<open>The local cache manager (\<^verbatim>\<open>services/offlineStorage.ts\<close>)\<close>

definition KEYS_ARTICLES :: string where
  "KEYS_ARTICLES = ''econquiz_articles''"

definition KEYS_ARTICLE_PREFIX :: string where
  "KEYS_ARTICLE_PREFIX = ''econquiz_article_''"

definition KEYS_QUIZZES :: string where
  "KEYS_QUIZZES = ''econquiz_quizzes''"

definition KEYS_QUIZ_PREFIX :: string where
  "KEYS_QUIZ_PREFIX = ''econquiz_quiz_''"

definition KEYS_LAST_SYNC :: string where
  "KEYS_LAST_SYNC = ''econquiz_last_sync''"

definition saveLastSyncTime :: "unit io" where
  "saveLastSyncTime =
     try_catch
       (await Date_toISOString (\<lambda>now. AsyncStorage_setItem KEYS_LAST_SYNC now))
       (\<lambda>error. console_error ''Error saving last sync time:'' error)"

definition article_list_entry :: "article \<Rightarrow> article_summary" where
  "article_list_entry article =
     \<lparr> article_summary.id' = article_summary.id' article,
       article_summary.title = article_summary.title article,
       article_summary.summary = article_summary.summary article,
       article_summary.is_premium = article_summary.is_premium article,
       article_summary.created_at = article_summary.created_at article,
       article_summary.updated_at = article_summary.updated_at article,
       article_summary.category = article_summary.category article,
       article_summary.reading_time_minutes = article_summary.reading_time_minutes article \<rparr>"

definition saveArticlesOffline :: "article list \<Rightarrow> unit io" where
  "saveArticlesOffline = (\<lambda>articles.
     try_catch
       (let articlesList = map article_list_entry articles in
        await (AsyncStorage_setItem KEYS_ARTICLES (JSON_stringify (Article_list articlesList))) (\<lambda>_.
        await (Promise_all (map (\<lambda>article.
                 AsyncStorage_setItem (KEYS_ARTICLE_PREFIX @ article_summary.id' article)
                   (JSON_stringify (Article_obj article))) articles)) (\<lambda>_.
        saveLastSyncTime)))
       (\<lambda>error. console_error ''Error saving articles offline:'' error))"

definition getOfflineArticles :: "article_summary list io" where
  "getOfflineArticles =
     try_catch
       (await (AsyncStorage_getItem KEYS_ARTICLES) (\<lambda>articlesJson.
          case articlesJson of
            None \<Rightarrow> return []
          | Some text \<Rightarrow> await (JSON_parse text) as_article_list))
       (\<lambda>error. await (console_error ''Error getting offline articles:'' error) (\<lambda>_. return []))"

definition getOfflineArticle :: "string \<Rightarrow> article option io" where
  "getOfflineArticle articleId =
     try_catch
       (await (AsyncStorage_getItem (KEYS_ARTICLE_PREFIX @ articleId)) (\<lambda>articleJson.
          case articleJson of
            None \<Rightarrow> return None
          | Some text \<Rightarrow> await (JSON_parse text) as_article))
       (\<lambda>error. await (console_error ''Error getting offline article:'' error) (\<lambda>_. return None))"

definition quiz_list_entry :: "quiz \<Rightarrow> quiz_summary" where
  "quiz_list_entry quiz =
     \<lparr> quiz_summary.id' = quiz_summary.id' quiz,
       quiz_summary.title = quiz_summary.title quiz,
       quiz_summary.description = quiz_summary.description quiz,
       quiz_summary.article_id = quiz_summary.article_id quiz,
       quiz_summary.time_limit_minutes = quiz_summary.time_limit_minutes quiz,
       quiz_summary.passing_score = quiz_summary.passing_score quiz,
       quiz_summary.created_at = quiz_summary.created_at quiz,
       quiz_summary.updated_at = quiz_summary.updated_at quiz,
       quiz_summary.articles = quiz_summary.articles quiz \<rparr>"

definition saveQuizzesOffline :: "quiz list \<Rightarrow> unit io" where
  "saveQuizzesOffline = (\<lambda>quizzes.
     try_catch
       (let quizzesList = map quiz_list_entry quizzes in
        await (AsyncStorage_setItem KEYS_QUIZZES (JSON_stringify (Quiz_list quizzesList))) (\<lambda>_.
        await (Promise_all (map (\<lambda>quiz.
                 AsyncStorage_setItem (KEYS_QUIZ_PREFIX @ quiz_summary.id' quiz)
                   (JSON_stringify (Quiz_obj quiz))) quizzes)) (\<lambda>_.
        saveLastSyncTime)))
       (\<lambda>error. console_error ''Error saving quizzes offline:'' error))"

definition getOfflineQuizzes :: "quiz_summary list io" where
  "getOfflineQuizzes =
     try_catch
       (await (AsyncStorage_getItem KEYS_QUIZZES) (\<lambda>quizzesJson.
          case quizzesJson of
            None \<Rightarrow> return []
          | Some text \<Rightarrow> await (JSON_parse text) as_quiz_list))
       (\<lambda>error. await (console_error ''Error getting offline quizzes:'' error) (\<lambda>_. return []))"

definition getOfflineQuiz :: "string \<Rightarrow> quiz option io" where
  "getOfflineQuiz quizId =
     try_catch
       (await (AsyncStorage_getItem (KEYS_QUIZ_PREFIX @ quizId)) (\<lambda>quizJson.
          case quizJson of
            None \<Rightarrow> return None
          | Some text \<Rightarrow> await (JSON_parse text) as_quiz))
       (\<lambda>error. await (console_error ''Error getting offline quiz:'' error) (\<lambda>_. return None))"

text \<open>
  \<^verbatim>\<open>quizzes.find(q => q.article_id === articleId)\<close> is \<open>find\<close>: the first entry that
  matches. The guard \<^verbatim>\<open>!quiz || !quiz.id\<close> holds when nothing was found and when the entry's
  id is the empty string (which is falsy).
\<close>

definition getOfflineQuizByArticleId :: "string \<Rightarrow> quiz option io" where
  "getOfflineQuizByArticleId articleId =
     try_catch
       (await getOfflineQuizzes (\<lambda>quizzes.
          case find (\<lambda>q. quiz_summary.article_id q = articleId) quizzes of
            None \<Rightarrow> return None
          | Some quiz \<Rightarrow>
              if quiz_summary.id' quiz = [] then return None
              else getOfflineQuiz (quiz_summary.id' quiz)))
       (\<lambda>error. await (console_error ''Error getting offline quiz by article ID:'' error)
                  (\<lambda>_. return None))"

definition getLastSyncTime :: "payload option io" where
  "getLastSyncTime =
     try_catch
       (AsyncStorage_getItem KEYS_LAST_SYNC)
       (\<lambda>error. await (console_error ''Error getting last sync time:'' error) (\<lambda>_. return None))"

text \<open>
  \<^verbatim>\<open>diffHours = (now.getTime() - lastSyncDate.getTime()) / (1000 * 60 * 60)\<close>, and
  \<^verbatim>\<open>diffHours > 24\<close>. With an invalid date the difference is NaN, and every comparison
  with NaN is false.
\<close>

definition isSyncNeeded :: "bool io" where
  "isSyncNeeded =
     await getLastSyncTime (\<lambda>lastSync.
       case lastSync of
         None \<Rightarrow> return True
       | Some text \<Rightarrow>
           await Date_now (\<lambda>now.
             case Date_getTime text of
               None \<Rightarrow> return False
             | Some lastSyncDate \<Rightarrow>
                 (let diffHours = (of_int (now - lastSyncDate) :: number) / (1000 * 60 * 60)
                  in return (diffHours > 24))))"

definition startsWith :: "string \<Rightarrow> string \<Rightarrow> bool" where
  "startsWith key p = (take (length p) key = p)"

definition clearOfflineData :: "unit io" where
  "clearOfflineData =
     try_catch
       (await AsyncStorage_getAllKeys (\<lambda>keys.
          let econquizKeys = filter (\<lambda>key. startsWith key ''econquiz_'') keys
          in AsyncStorage_multiRemove econquizKeys))
       (\<lambda>error. console_error ''Error clearing offline data:'' error)"

subsection \<open>The shapes of the stored records\<close>

text \<open>
  What each key of the namespace holds when it was written by the operations above: the
  list keys a list of entries, a detail key the full entity, the sync clock a timestamp.
  \<open>well_shaped\<close> says that every record of the store has the shape of its key.
\<close>

fun shape_expected :: "string \<Rightarrow> payload \<Rightarrow> bool" where
  "shape_expected key p =
     (if key = KEYS_ARTICLES then (case p of Json_text (Article_list xs) \<Rightarrow> True | _ \<Rightarrow> False)
      else if key = KEYS_QUIZZES then (case p of Json_text (Quiz_list xs) \<Rightarrow> True | _ \<Rightarrow> False)
      else if key = KEYS_LAST_SYNC then (case p of Iso_text t \<Rightarrow> True | _ \<Rightarrow> False)
      else if startsWith key KEYS_ARTICLE_PREFIX
        then (case p of Json_text (Article_obj a) \<Rightarrow> True | _ \<Rightarrow> False)
      else if startsWith key KEYS_QUIZ_PREFIX
        then (case p of Json_text (Quiz_obj q) \<Rightarrow> True | _ \<Rightarrow> False)
      else True)"

definition well_shaped :: "world \<Rightarrow> bool" where
  "well_shaped w = list_all (\<lambda>(key, p). shape_expected key p) (storage w)"

section \<open>Connectivity and the remote gateway\<close>

definition NetInfo_fetch :: "bool option io" where
  "NetInfo_fetch = (\<lambda>w. (Inr (isConnected w), w))"

text \<open>
  A request to the backend resolves to \<^verbatim>\<open>{ data, error }\<close>: here \<open>Inl error\<close> or
  \<open>Inr data\<close>, as a value (the client does not throw). A table listed in \<open>faults\<close>
  answers every request with its error and changes nothing.
\<close>

definition supabase_query :: "string \<Rightarrow> (backend \<Rightarrow> js_error + 'r) \<Rightarrow> (js_error + 'r) io" where
  "supabase_query table q = (\<lambda>w.
     (Inr (case map_of (faults (backend w)) table of
             Some e \<Rightarrow> Inl e
           | None \<Rightarrow> q (backend w)),
      w\<lparr>calls := calls w @ [Remote_request table]\<rparr>))"

definition supabase_mutation ::
    "string \<Rightarrow> (timestamp \<Rightarrow> backend \<Rightarrow> (js_error + 'r) \<times> backend) \<Rightarrow> (js_error + 'r) io" where
  "supabase_mutation table f = (\<lambda>w.
     case map_of (faults (backend w)) table of
       Some e \<Rightarrow> (Inr (Inl e), w\<lparr>calls := calls w @ [Remote_request table]\<rparr>)
     | None \<Rightarrow>
         (case f (clock w) (backend w) of
            (r, b) \<Rightarrow> (Inr r, w\<lparr>backend := b, calls := calls w @ [Remote_request table]\<rparr>)))"

text \<open>\<^verbatim>\<open>.single()\<close>: exactly one row, or the error with code PGRST116.\<close>

fun single :: "'r list \<Rightarrow> js_error + 'r" where
  "single [r] = Inr r"
| "single rs = Inl (Postgrest_error ''PGRST116'')"


text \<open>The decimal digits of a number, as string concatenation prints an integer.\<close>

fun digits :: "nat \<Rightarrow> string" where
  "digits n =
     (if n < 10 then [''0123456789'' ! n]
      else digits (n div 10) @ [''0123456789'' ! (n mod 10)])"

definition Number_toString :: "int \<Rightarrow> string" where
  "Number_toString i = (if i < 0 then CHR ''-'' # digits (nat (- i)) else digits (nat i))"

text \<open>
  \<^verbatim>\<open>from('articles').select('*').order('created_at', { ascending: false })\<close>, with
  \<^verbatim>\<open>.eq('is_premium', false)\<close> when \<open>free_only\<close> (the builder's \<^verbatim>\<open>eq\<close> adds the filter
  to the query it is called on). Rows of equal \<^verbatim>\<open>created_at\<close> come in some fixed order.
\<close>

definition select_articles :: "bool \<Rightarrow> backend \<Rightarrow> js_error + article list" where
  "select_articles free_only b =
     Inr (rev (sort_key article_summary.created_at
       (if free_only then filter (\<lambda>a. article_summary.is_premium a = False) (articles_rows b)
        else articles_rows b)))"


definition select_progress :: "string \<Rightarrow> string \<Rightarrow> backend \<Rightarrow> js_error + article_progress" where
  "select_progress userId articleId b =
     single (filter (\<lambda>p. article_progress.user_id p = userId \<and>
                          article_progress.article_id p = articleId)
               (user_article_progress_rows b))"

definition update_progress ::
    "string \<Rightarrow> string \<Rightarrow> bool \<Rightarrow> timestamp \<Rightarrow> timestamp \<Rightarrow> backend \<Rightarrow> (js_error + unit) \<times> backend" where
  "update_progress userId articleId done lastReadAt now b =
     (Inr (),
      b\<lparr>user_article_progress_rows :=
          map (\<lambda>p. if article_progress.user_id p = userId \<and>
                       article_progress.article_id p = articleId
                    then p\<lparr>article_progress.completed := done,
                           article_progress.last_read_at := lastReadAt\<rparr>
                    else p)
            (user_article_progress_rows b)\<rparr>)"

definition insert_progress ::
    "string \<Rightarrow> string \<Rightarrow> bool \<Rightarrow> timestamp \<Rightarrow> timestamp \<Rightarrow> backend \<Rightarrow> (js_error + unit) \<times> backend" where
  "insert_progress userId articleId done lastReadAt now b =
     (Inr (),
      b\<lparr>user_article_progress_rows := user_article_progress_rows b @
          [\<lparr> article_progress.id' = Number_toString (int (next_id b)),
             article_progress.user_id = userId,
             article_progress.article_id = articleId,
             article_progress.completed = done,
             article_progress.last_read_at = lastReadAt,
             article_progress.created_at = now \<rparr>],
        next_id := Suc (next_id b)\<rparr>)"



text \<open>\<^verbatim>\<open>.insert([...]).select().single()\<close> answers with the inserted row.\<close>

definition insert_attempt ::
    "string \<Rightarrow> string \<Rightarrow> number \<Rightarrow> timestamp \<Rightarrow> timestamp \<Rightarrow> backend
       \<Rightarrow> (js_error + quiz_attempt) \<times> backend" where
  "insert_attempt userId quizId sc completedAt now b =
     (let row = \<lparr> quiz_attempt.id' = Number_toString (int (next_id b)),
                  quiz_attempt.user_id = userId,
                  quiz_attempt.quiz_id = quizId,
                  quiz_attempt.score = sc,
                  quiz_attempt.completed_at = completedAt,
                  quiz_attempt.created_at = now,
                  quiz_attempt.quizzes = None \<rparr>
      in (Inr row,
          b\<lparr>quiz_attempts_rows := quiz_attempts_rows b @ [row], next_id := Suc (next_id b)\<rparr>))"

definition insert_answers ::
    "(string \<times> string \<times> number) list \<Rightarrow> timestamp \<Rightarrow> backend \<Rightarrow> (js_error + unit) \<times> backend" where
  "insert_answers answersToInsert now b =
     (Inr (),
      b\<lparr>quiz_answers_rows := quiz_answers_rows b @
          map (\<lambda>(i, (attemptId, questionId, selected)).
                 \<lparr> quiz_answer.id' = Number_toString (int (next_id b + i)),
                   quiz_answer.attempt_id = attemptId,
                   quiz_answer.question_id = questionId,
                   quiz_answer.selected_option = selected,
                   quiz_answer.created_at = now \<rparr>)
              (enumerate 0 answersToInsert),
        next_id := next_id b + length answersToInsert\<rparr>)"

section \<open>The sync orchestrator: \<^verbatim>\<open>services/articleService.ts\<close>\<close>

text \<open>
  What \<^verbatim>\<open>fetchArticles\<close> returns under the type \<^verbatim>\<open>Article[]\<close>: the rows of the backend
  on the remote path, the entries of the cached list record (asserted to be articles, with
  the fields of the list projection only) on the fallback path.
\<close>

datatype fetched_articles = Remote_rows "article list" | Cached_entries "article_summary list"

definition fetchArticles :: "bool \<Rightarrow> fetched_articles io" where
  "fetchArticles isPremiumUser =
     try_catch
       (await NetInfo_fetch (\<lambda>netInfo.
          if netInfo = Some True then
            await (supabase_query ''articles'' (select_articles (\<not> isPremiumUser))) (\<lambda>response.
              case response of
                Inl error \<Rightarrow> throw error
              | Inr data \<Rightarrow>
                  await (saveArticlesOffline data) (\<lambda>_. return (Remote_rows data)))
          else
            await getOfflineArticles (\<lambda>offlineArticles.
              return (Cached_entries (filter (\<lambda>article.
                isPremiumUser \<or> \<not> article_summary.is_premium article) offlineArticles)))))
       (\<lambda>error.
          await (console_error ''Error in fetchArticles:'' error) (\<lambda>_.
          await getOfflineArticles (\<lambda>offlineArticles.
            return (Cached_entries (filter (\<lambda>article.
              isPremiumUser \<or> \<not> article_summary.is_premium article) offlineArticles)))))"


text \<open>
  Of the first request only \<^verbatim>\<open>data\<close> is read: an error of \<^verbatim>\<open>.single()\<close> (no row, several
  rows, a failed request) leaves \<^verbatim>\<open>existingProgress\<close> null and leads to the insert.
\<close>

definition updateArticleProgress :: "string \<Rightarrow> string \<Rightarrow> bool \<Rightarrow> unit io" where
  "updateArticleProgress userId articleId = (\<lambda>completed.
     try_catch
       (await NetInfo_fetch (\<lambda>netInfo.
          if netInfo \<noteq> Some True then
            console_log ''Offline: Article progress update queued for later''
          else
            await (supabase_query ''user_article_progress'' (select_progress userId articleId))
              (\<lambda>response.
                 await Date_now (\<lambda>now.
                   case response of
                     Inr existingProgress \<Rightarrow>
                       await (supabase_mutation ''user_article_progress''
                                (update_progress userId articleId completed now)) (\<lambda>r.
                         case r of Inl error \<Rightarrow> throw error | Inr _ \<Rightarrow> return ())
                   | Inl _ \<Rightarrow>
                       await (supabase_mutation ''user_article_progress''
                                (insert_progress userId articleId completed now)) (\<lambda>r.
                         case r of Inl error \<Rightarrow> throw error | Inr _ \<Rightarrow> return ())))))
       (\<lambda>error.
          await (console_error ''Error updating article progress:'' error) (\<lambda>_. throw error)))"

section \<open>The sync orchestrator: \<^verbatim>\<open>services/quizService.ts\<close>\<close>


definition saveQuizAttempt ::
    "string \<Rightarrow> string \<Rightarrow> number \<Rightarrow> user_quiz_answer list \<Rightarrow> quiz_attempt io" where
  "saveQuizAttempt userId quizId = (\<lambda>score answers.
     try_catch
       (await NetInfo_fetch (\<lambda>netInfo.
          if netInfo \<noteq> Some True then
            await (console_log ''Offline: Quiz attempt saved locally for later sync'') (\<lambda>_.
            await Date_now (\<lambda>now.
              return \<lparr> quiz_attempt.id' = ''offline-'' @ Number_toString now,
                       quiz_attempt.user_id = userId,
                       quiz_attempt.quiz_id = quizId,
                       quiz_attempt.score = score,
                       quiz_attempt.completed_at = now,
                       quiz_attempt.created_at = now,
                       quiz_attempt.quizzes = None \<rparr>))
          else
            await Date_now (\<lambda>now.
            await (supabase_mutation ''quiz_attempts'' (insert_attempt userId quizId score now))
              (\<lambda>response.
                 case response of
                   Inl attemptError \<Rightarrow> throw attemptError
                 | Inr attemptData \<Rightarrow>
                     (let answersToInsert =
                            map (\<lambda>answer. (quiz_attempt.id' attemptData,
                                            questionId answer, selectedOption answer)) answers
                      in await (supabase_mutation ''quiz_answers''
                                  (insert_answers answersToInsert)) (\<lambda>response2.
                           case response2 of
                             Inl answersError \<Rightarrow> throw answersError
                           | Inr _ \<Rightarrow> return attemptData))))))
       (\<lambda>error.
          await (console_error ''Error saving quiz attempt:'' error) (\<lambda>_. throw error)))"

section \<open>Example states\<close>

text \<open>Concrete entities and states, on which the theorems below are instantiated.\<close>

definition free_article :: article where
  "free_article =
     \<lparr> article_summary.id' = ''a1'',
       article_summary.title = ''Inflation'',
       article_summary.summary = ''What inflation is'',
       article_summary.is_premium = False,
       article_summary.created_at = 1000,
       article_summary.updated_at = 1000,
       article_summary.category = Some ''macro'',
       article_summary.reading_time_minutes = Some 5,
       content = ''Prices rise.'',
       image_url = None \<rparr>"

definition premium_article :: article where
  "premium_article =
     \<lparr> article_summary.id' = ''a2'',
       article_summary.title = ''Bond pricing'',
       article_summary.summary = ''How bonds are priced'',
       article_summary.is_premium = True,
       article_summary.created_at = 2000,
       article_summary.updated_at = 2000,
       article_summary.category = None,
       article_summary.reading_time_minutes = None,
       content = ''Yields fall as prices rise.'',
       image_url = Some ''bond.png'' \<rparr>"

definition sample_question :: quiz_question where
  "sample_question =
     \<lparr> quiz_question.id' = ''n1'',
       quiz_question.quiz_id = ''q1'',
       quiz_question.question_text = ''What rises under inflation?'',
       quiz_question.options = [''Prices'', ''Nothing''],
       quiz_question.correct_option = 0,
       quiz_question.explanation = None,
       quiz_question.question_order = 1,
       quiz_question.created_at = 1000,
       quiz_question.updated_at = 1000 \<rparr>"

definition sample_quiz :: quiz where
  "sample_quiz =
     \<lparr> quiz_summary.id' = ''q1'',
       quiz_summary.title = ''Inflation quiz'',
       quiz_summary.description = None,
       quiz_summary.article_id = ''A1'',
       quiz_summary.time_limit_minutes = Some 10,
       quiz_summary.passing_score = 70,
       quiz_summary.created_at = 1000,
       quiz_summary.updated_at = 1000,
       quiz_summary.articles = None,
       questions = Some [sample_question] \<rparr>"

definition empty_backend :: backend where
  "empty_backend =
     \<lparr> articles_rows = [], quizzes_rows = [], quiz_questions_rows = [],
       quiz_attempts_rows = [], quiz_answers_rows = [], user_article_progress_rows = [],
       faults = [], next_id = 0 \<rparr>"

text \<open>An empty store that rejects nothing, an online device, an empty backend.\<close>

definition fresh_world :: world where
  "fresh_world =
     \<lparr> storage = [], write_rejected = [], read_rejected = [], isConnected = Some True,
       backend = empty_backend, clock = 1700000000000, console = [], calls = [] \<rparr>"

text \<open>The store rejects the write of the detail record of article \<^verbatim>\<open>a1\<close>.\<close>

definition detail_rejecting_world :: world where
  "detail_rejecting_world = fresh_world\<lparr>write_rejected := [KEYS_ARTICLE_PREFIX @ ''a1'']\<rparr>"

text \<open>A quiz whose id is the empty string.\<close>

definition unnamed_quiz :: quiz where
  "unnamed_quiz = sample_quiz\<lparr>quiz_summary.id' := ''''\<rparr>"

text \<open>An offline device with an empty store.\<close>

definition offline_world :: world where
  "offline_world = fresh_world\<lparr>isConnected := Some False\<rparr>"

text \<open>
  The cache holds the premium article, saved earlier; the device is online and the backend
  answers every request on \<^verbatim>\<open>articles\<close> with an error.
\<close>

definition failing_remote_world :: world where
  "failing_remote_world =
     (snd (saveArticlesOffline [premium_article] fresh_world))
       \<lparr>backend := empty_backend\<lparr>faults := [(''articles'', Postgrest_error ''500'')]\<rparr>\<rparr>"

text \<open>
  The backend holds both articles and the quiz with its question; the cache holds both
  articles, saved earlier; the device is online.
\<close>

definition stocked_backend :: backend where
  "stocked_backend =
     empty_backend\<lparr>articles_rows := [free_article, premium_article],
                   quizzes_rows := [quiz_list_entry sample_quiz],
                   quiz_questions_rows := [sample_question]\<rparr>"

definition stocked_world :: world where
  "stocked_world =
     (snd (saveArticlesOffline [free_article, premium_article] fresh_world))
       \<lparr>backend := stocked_backend\<rparr>"

section \<open>Running the operations\<close>

lemma await_return [simp]: "await (return x) f = f x"
  by (simp add: await_def return_def)

lemma return_apply [simp]: "return x w = (Inr x, w)"
  by (simp add: return_def)

lemma throw_apply [simp]: "throw e w = (Inl e, w)"
  by (simp add: throw_def)

subsection \<open>The keys are pairwise different\<close>

lemma keys_distinct [simp]:
  "KEYS_ARTICLE_PREFIX @ i \<noteq> KEYS_ARTICLES"
  "KEYS_ARTICLE_PREFIX @ i \<noteq> KEYS_QUIZZES"
  "KEYS_ARTICLE_PREFIX @ i \<noteq> KEYS_LAST_SYNC"
  "KEYS_ARTICLE_PREFIX @ i \<noteq> KEYS_QUIZ_PREFIX @ j"
  "KEYS_QUIZ_PREFIX @ i \<noteq> KEYS_ARTICLES"
  "KEYS_QUIZ_PREFIX @ i \<noteq> KEYS_QUIZZES"
  "KEYS_QUIZ_PREFIX @ i \<noteq> KEYS_LAST_SYNC"
  "KEYS_QUIZ_PREFIX @ i \<noteq> KEYS_ARTICLE_PREFIX @ j"
  "KEYS_ARTICLES \<noteq> KEYS_QUIZZES"
  "KEYS_ARTICLES \<noteq> KEYS_LAST_SYNC"
  "KEYS_QUIZZES \<noteq> KEYS_LAST_SYNC"
  by (simp_all add: KEYS_ARTICLES_def KEYS_ARTICLE_PREFIX_def KEYS_QUIZZES_def
      KEYS_QUIZ_PREFIX_def KEYS_LAST_SYNC_def)

subsection \<open>Writes to the store\<close>

lemma store_fold_lookup:
  "map_of (fold (\<lambda>x s. if k x \<in> set rej then s else AList.update (k x) (v x) s) xs s0) key =
     (if filter (\<lambda>x. k x = key \<and> k x \<notin> set rej) xs = [] then map_of s0 key
      else Some (v (last (filter (\<lambda>x. k x = key \<and> k x \<notin> set rej) xs))))"
  by (induction xs arbitrary: s0) (auto simp: update_conv')

lemma setItem_apply:
  "AsyncStorage_setItem key v w =
     (if key \<in> set (write_rejected w)
      then (Inl (Storage_error key), w\<lparr>calls := calls w @ [Storage_setItem key]\<rparr>)
      else (Inr (), w\<lparr>storage := AList.update key v (storage w),
                       calls := calls w @ [Storage_setItem key]\<rparr>))"
  by (simp add: AsyncStorage_setItem_def)

lemma getItem_apply:
  "AsyncStorage_getItem key w =
     (if key \<in> set (read_rejected w) then (Inl (Storage_error key), w)
      else (Inr (map_of (storage w) key), w))"
  by (simp add: AsyncStorage_getItem_def)

lemma Promise_all_setItem:
  "Promise_all (map (\<lambda>x. AsyncStorage_setItem (k x) (v x)) xs) w =
     ((case find (\<lambda>x. k x \<in> set (write_rejected w)) xs of
         Some x \<Rightarrow> Inl (Storage_error (k x))
       | None \<Rightarrow> Inr ()),
      w\<lparr>storage := fold (\<lambda>x s. if k x \<in> set (write_rejected w) then s
                                else AList.update (k x) (v x) s) xs (storage w),
        calls := calls w @ map (\<lambda>x. Storage_setItem (k x)) xs\<rparr>)"
proof (induction xs arbitrary: w)
  case Nil
  then show ?case by simp
next
  case (Cons x xs)
  have step: "AsyncStorage_setItem (k x) (v x) w =
     (if k x \<in> set (write_rejected w)
      then (Inl (Storage_error (k x)), w\<lparr>calls := calls w @ [Storage_setItem (k x)]\<rparr>)
      else (Inr (), w\<lparr>storage := AList.update (k x) (v x) (storage w),
                       calls := calls w @ [Storage_setItem (k x)]\<rparr>))"
    by (rule setItem_apply)
  show ?case
    by (simp add: Cons.IH step split: option.splits)
qed

lemma saveLastSyncTime_run:
  "saveLastSyncTime w =
     (Inr (),
      if KEYS_LAST_SYNC \<in> set (write_rejected w)
      then w\<lparr>calls := calls w @ [Storage_setItem KEYS_LAST_SYNC],
             console := console w @
               [Console_error ''Error saving last sync time:'' (Storage_error KEYS_LAST_SYNC)]\<rparr>
      else w\<lparr>storage := AList.update KEYS_LAST_SYNC (Iso_text (clock w)) (storage w),
             calls := calls w @ [Storage_setItem KEYS_LAST_SYNC]\<rparr>)"
  by (simp add: saveLastSyncTime_def try_catch_def await_def Date_toISOString_def
      setItem_apply console_error_def)

lemma save_skeleton:
  "try_catch
     (await (AsyncStorage_setItem lk lv) (\<lambda>_.
      await (Promise_all (map (\<lambda>x. AsyncStorage_setItem (k x) (v x)) xs)) (\<lambda>_.
      saveLastSyncTime)))
     (\<lambda>error. console_error label error) w =
   (Inr (),
    if lk \<in> set (write_rejected w)
    then w\<lparr>calls := calls w @ [Storage_setItem lk],
           console := console w @ [Console_error label (Storage_error lk)]\<rparr>
    else
      (case find (\<lambda>x. k x \<in> set (write_rejected w)) xs of
         Some x \<Rightarrow>
           w\<lparr>storage := fold (\<lambda>x s. if k x \<in> set (write_rejected w) then s
                                     else AList.update (k x) (v x) s) xs
                             (AList.update lk lv (storage w)),
             calls := calls w @ Storage_setItem lk # map (\<lambda>x. Storage_setItem (k x)) xs,
             console := console w @ [Console_error label (Storage_error (k x))]\<rparr>
       | None \<Rightarrow>
           if KEYS_LAST_SYNC \<in> set (write_rejected w)
           then w\<lparr>storage := fold (\<lambda>x s. if k x \<in> set (write_rejected w) then s
                                     else AList.update (k x) (v x) s) xs
                                  (AList.update lk lv (storage w)),
                  calls := calls w @ Storage_setItem lk # map (\<lambda>x. Storage_setItem (k x)) xs
                             @ [Storage_setItem KEYS_LAST_SYNC],
                  console := console w @
                    [Console_error ''Error saving last sync time:''
                       (Storage_error KEYS_LAST_SYNC)]\<rparr>
           else w\<lparr>storage := AList.update KEYS_LAST_SYNC (Iso_text (clock w))
                    (fold (\<lambda>x s. if k x \<in> set (write_rejected w) then s
                                     else AList.update (k x) (v x) s) xs
                       (AList.update lk lv (storage w))),
                  calls := calls w @ Storage_setItem lk # map (\<lambda>x. Storage_setItem (k x)) xs
                             @ [Storage_setItem KEYS_LAST_SYNC]\<rparr>))"
proof -
  have first: "AsyncStorage_setItem lk lv w =
     (if lk \<in> set (write_rejected w)
      then (Inl (Storage_error lk), w\<lparr>calls := calls w @ [Storage_setItem lk]\<rparr>)
      else (Inr (), w\<lparr>storage := AList.update lk lv (storage w),
                       calls := calls w @ [Storage_setItem lk]\<rparr>))"
    by (rule setItem_apply)
  show ?thesis
    by (simp add: try_catch_def await_def first Promise_all_setItem saveLastSyncTime_run
        console_error_def split: option.splits)
qed

subsection \<open>Reads of the cache\<close>

lemma getOfflineArticles_run:
  "getOfflineArticles w =
     (if KEYS_ARTICLES \<in> set (read_rejected w)
      then (Inr [], w\<lparr>console := console w @
              [Console_error ''Error getting offline articles:'' (Storage_error KEYS_ARTICLES)]\<rparr>)
      else
        (case map_of (storage w) KEYS_ARTICLES of
           None \<Rightarrow> (Inr [], w)
         | Some (Json_text (Article_list xs)) \<Rightarrow> (Inr xs, w)
         | Some (Json_text _) \<Rightarrow>
             (Inr [], w\<lparr>console := console w @
                [Console_error ''Error getting offline articles:'' Type_error]\<rparr>)
         | Some (Iso_text t) \<Rightarrow>
             (Inr [], w\<lparr>console := console w @
                [Console_error ''Error getting offline articles:'' Syntax_error]\<rparr>)))"
  by (simp add: getOfflineArticles_def try_catch_def await_def getItem_apply console_error_def
      split: option.splits payload.splits json.splits)

lemma getOfflineArticle_run:
  "getOfflineArticle i w =
     (if KEYS_ARTICLE_PREFIX @ i \<in> set (read_rejected w)
      then (Inr None, w\<lparr>console := console w @
              [Console_error ''Error getting offline article:''
                 (Storage_error (KEYS_ARTICLE_PREFIX @ i))]\<rparr>)
      else
        (case map_of (storage w) (KEYS_ARTICLE_PREFIX @ i) of
           None \<Rightarrow> (Inr None, w)
         | Some (Json_text (Article_obj a)) \<Rightarrow> (Inr (Some a), w)
         | Some (Json_text _) \<Rightarrow>
             (Inr None, w\<lparr>console := console w @
                [Console_error ''Error getting offline article:'' Type_error]\<rparr>)
         | Some (Iso_text t) \<Rightarrow>
             (Inr None, w\<lparr>console := console w @
                [Console_error ''Error getting offline article:'' Syntax_error]\<rparr>)))"
  by (simp add: getOfflineArticle_def try_catch_def await_def getItem_apply console_error_def
      split: option.splits payload.splits json.splits)

lemma getOfflineQuizzes_run:
  "getOfflineQuizzes w =
     (if KEYS_QUIZZES \<in> set (read_rejected w)
      then (Inr [], w\<lparr>console := console w @
              [Console_error ''Error getting offline quizzes:'' (Storage_error KEYS_QUIZZES)]\<rparr>)
      else
        (case map_of (storage w) KEYS_QUIZZES of
           None \<Rightarrow> (Inr [], w)
         | Some (Json_text (Quiz_list xs)) \<Rightarrow> (Inr xs, w)
         | Some (Json_text _) \<Rightarrow>
             (Inr [], w\<lparr>console := console w @
                [Console_error ''Error getting offline quizzes:'' Type_error]\<rparr>)
         | Some (Iso_text t) \<Rightarrow>
             (Inr [], w\<lparr>console := console w @
                [Console_error ''Error getting offline quizzes:'' Syntax_error]\<rparr>)))"
  by (simp add: getOfflineQuizzes_def try_catch_def await_def getItem_apply console_error_def
      split: option.splits payload.splits json.splits)

lemma getOfflineQuiz_run:
  "getOfflineQuiz i w =
     (if KEYS_QUIZ_PREFIX @ i \<in> set (read_rejected w)
      then (Inr None, w\<lparr>console := console w @
              [Console_error ''Error getting offline quiz:''
                 (Storage_error (KEYS_QUIZ_PREFIX @ i))]\<rparr>)
      else
        (case map_of (storage w) (KEYS_QUIZ_PREFIX @ i) of
           None \<Rightarrow> (Inr None, w)
         | Some (Json_text (Quiz_obj q)) \<Rightarrow> (Inr (Some q), w)
         | Some (Json_text _) \<Rightarrow>
             (Inr None, w\<lparr>console := console w @
                [Console_error ''Error getting offline quiz:'' Type_error]\<rparr>)
         | Some (Iso_text t) \<Rightarrow>
             (Inr None, w\<lparr>console := console w @
                [Console_error ''Error getting offline quiz:'' Syntax_error]\<rparr>)))"
  by (simp add: getOfflineQuiz_def try_catch_def await_def getItem_apply console_error_def
      split: option.splits payload.splits json.splits)

lemma getOfflineQuiz_never_throws: "\<exists>r w'. getOfflineQuiz i w = (Inr r, w')"
  by (simp add: getOfflineQuiz_run split: option.splits payload.splits json.splits)

lemma getOfflineQuizzes_never_throws: "\<exists>r w'. getOfflineQuizzes w = (Inr r, w')"
  by (simp add: getOfflineQuizzes_run split: option.splits payload.splits json.splits)

lemma getOfflineQuizByArticleId_never_throws:
  "\<exists>r w'. getOfflineQuizByArticleId a w = (Inr r, w')"
proof -
  obtain qs w1 where l: "getOfflineQuizzes w = (Inr qs, w1)"
    using getOfflineQuizzes_never_throws by blast
  show ?thesis
  proof (cases "find (\<lambda>q. quiz_summary.article_id q = a) qs")
    case None
    then show ?thesis
      by (simp add: getOfflineQuizByArticleId_def try_catch_def await_def l)
  next
    case (Some q)
    obtain r w2 where d: "getOfflineQuiz (quiz_summary.id' q) w1 = (Inr r, w2)"
      using getOfflineQuiz_never_throws by blast
    show ?thesis
      by (simp add: getOfflineQuizByArticleId_def try_catch_def await_def l Some d)
  qed
qed

subsection \<open>Saving a list\<close>

lemma saveArticlesOffline_run:
  "saveArticlesOffline arts w =
   (Inr (),
    if KEYS_ARTICLES \<in> set (write_rejected w)
    then w\<lparr>calls := calls w @ [Storage_setItem KEYS_ARTICLES],
           console := console w @
             [Console_error ''Error saving articles offline:'' (Storage_error KEYS_ARTICLES)]\<rparr>
    else
      (case find (\<lambda>a. KEYS_ARTICLE_PREFIX @ article_summary.id' a \<in> set (write_rejected w))
              arts of
         Some x \<Rightarrow>
           w\<lparr>storage :=
               fold (\<lambda>a s. if KEYS_ARTICLE_PREFIX @ article_summary.id' a \<in> set (write_rejected w)
                            then s
                            else AList.update (KEYS_ARTICLE_PREFIX @ article_summary.id' a)
                                   (Json_text (Article_obj a)) s)
                 arts
                 (AList.update KEYS_ARTICLES
                    (Json_text (Article_list (map article_list_entry arts))) (storage w)),
             calls := calls w @ Storage_setItem KEYS_ARTICLES #
               map (\<lambda>a. Storage_setItem (KEYS_ARTICLE_PREFIX @ article_summary.id' a)) arts,
             console := console w @
               [Console_error ''Error saving articles offline:''
                  (Storage_error (KEYS_ARTICLE_PREFIX @ article_summary.id' x))]\<rparr>
       | None \<Rightarrow>
           if KEYS_LAST_SYNC \<in> set (write_rejected w)
           then
             w\<lparr>storage :=
                 fold (\<lambda>a s. if KEYS_ARTICLE_PREFIX @ article_summary.id' a \<in> set (write_rejected w)
                              then s
                              else AList.update (KEYS_ARTICLE_PREFIX @ article_summary.id' a)
                                     (Json_text (Article_obj a)) s)
                   arts
                   (AList.update KEYS_ARTICLES
                      (Json_text (Article_list (map article_list_entry arts))) (storage w)),
               calls := calls w @ Storage_setItem KEYS_ARTICLES #
                 map (\<lambda>a. Storage_setItem (KEYS_ARTICLE_PREFIX @ article_summary.id' a)) arts @
                 [Storage_setItem KEYS_LAST_SYNC],
               console := console w @
                 [Console_error ''Error saving last sync time:'' (Storage_error KEYS_LAST_SYNC)]\<rparr>
           else
             w\<lparr>storage :=
                 AList.update KEYS_LAST_SYNC (Iso_text (clock w))
                   (fold (\<lambda>a s. if KEYS_ARTICLE_PREFIX @ article_summary.id' a
                                      \<in> set (write_rejected w)
                                 then s
                                 else AList.update (KEYS_ARTICLE_PREFIX @ article_summary.id' a)
                                        (Json_text (Article_obj a)) s)
                      arts
                      (AList.update KEYS_ARTICLES
                         (Json_text (Article_list (map article_list_entry arts))) (storage w))),
               calls := calls w @ Storage_setItem KEYS_ARTICLES #
                 map (\<lambda>a. Storage_setItem (KEYS_ARTICLE_PREFIX @ article_summary.id' a)) arts @
                 [Storage_setItem KEYS_LAST_SYNC]\<rparr>))"
  unfolding saveArticlesOffline_def Let_def JSON_stringify_def
  by (rule save_skeleton)

lemma saveQuizzesOffline_run:
  "saveQuizzesOffline qzs w =
   (Inr (),
    if KEYS_QUIZZES \<in> set (write_rejected w)
    then w\<lparr>calls := calls w @ [Storage_setItem KEYS_QUIZZES],
           console := console w @
             [Console_error ''Error saving quizzes offline:'' (Storage_error KEYS_QUIZZES)]\<rparr>
    else
      (case find (\<lambda>q. KEYS_QUIZ_PREFIX @ quiz_summary.id' q \<in> set (write_rejected w)) qzs of
         Some x \<Rightarrow>
           w\<lparr>storage :=
               fold (\<lambda>q s. if KEYS_QUIZ_PREFIX @ quiz_summary.id' q \<in> set (write_rejected w)
                            then s
                            else AList.update (KEYS_QUIZ_PREFIX @ quiz_summary.id' q)
                                   (Json_text (Quiz_obj q)) s)
                 qzs
                 (AList.update KEYS_QUIZZES
                    (Json_text (Quiz_list (map quiz_list_entry qzs))) (storage w)),
             calls := calls w @ Storage_setItem KEYS_QUIZZES #
               map (\<lambda>q. Storage_setItem (KEYS_QUIZ_PREFIX @ quiz_summary.id' q)) qzs,
             console := console w @
               [Console_error ''Error saving quizzes offline:''
                  (Storage_error (KEYS_QUIZ_PREFIX @ quiz_summary.id' x))]\<rparr>
       | None \<Rightarrow>
           if KEYS_LAST_SYNC \<in> set (write_rejected w)
           then
             w\<lparr>storage :=
                 fold (\<lambda>q s. if KEYS_QUIZ_PREFIX @ quiz_summary.id' q \<in> set (write_rejected w)
                              then s
                              else AList.update (KEYS_QUIZ_PREFIX @ quiz_summary.id' q)
                                     (Json_text (Quiz_obj q)) s)
                   qzs
                   (AList.update KEYS_QUIZZES
                      (Json_text (Quiz_list (map quiz_list_entry qzs))) (storage w)),
               calls := calls w @ Storage_setItem KEYS_QUIZZES #
                 map (\<lambda>q. Storage_setItem (KEYS_QUIZ_PREFIX @ quiz_summary.id' q)) qzs @
                 [Storage_setItem KEYS_LAST_SYNC],
               console := console w @
                 [Console_error ''Error saving last sync time:'' (Storage_error KEYS_LAST_SYNC)]\<rparr>
           else
             w\<lparr>storage :=
                 AList.update KEYS_LAST_SYNC (Iso_text (clock w))
                   (fold (\<lambda>q s. if KEYS_QUIZ_PREFIX @ quiz_summary.id' q \<in> set (write_rejected w)
                                 then s
                                 else AList.update (KEYS_QUIZ_PREFIX @ quiz_summary.id' q)
                                        (Json_text (Quiz_obj q)) s)
                      qzs
                      (AList.update KEYS_QUIZZES
                         (Json_text (Quiz_list (map quiz_list_entry qzs))) (storage w))),
               calls := calls w @ Storage_setItem KEYS_QUIZZES #
                 map (\<lambda>q. Storage_setItem (KEYS_QUIZ_PREFIX @ quiz_summary.id' q)) qzs @
                 [Storage_setItem KEYS_LAST_SYNC]\<rparr>))"
  unfolding saveQuizzesOffline_def Let_def JSON_stringify_def
  by (rule save_skeleton)

lemma find_Some_holds: "find P xs = Some x \<Longrightarrow> P x \<and> x \<in> set xs"
  by (induction xs) (auto split: if_splits)

lemma filter_same_key_distinct:
  "distinct (map f xs) \<Longrightarrow> a \<in> set xs \<Longrightarrow> filter (\<lambda>b. f b = f a) xs = [a]"
proof (induction xs)
  case Nil
  then show ?case by simp
next
  case (Cons x xs)
  show ?case
  proof (cases "x = a")
    case True
    with Cons.prems have "\<forall>b\<in>set xs. f b \<noteq> f a" by (auto simp: image_iff)
    then have "filter (\<lambda>b. f b = f a) xs = []" by (simp add: filter_empty_conv)
    with True show ?thesis by simp
  next
    case False
    with Cons.prems have "a \<in> set xs" "f x \<noteq> f a" by (auto simp: image_iff)
    with Cons show ?thesis by simp
  qed
qed

lemma saveArticlesOffline_frame:
  "write_rejected (snd (saveArticlesOffline arts w)) = write_rejected w"
  "read_rejected (snd (saveArticlesOffline arts w)) = read_rejected w"
  "isConnected (snd (saveArticlesOffline arts w)) = isConnected w"
  "backend (snd (saveArticlesOffline arts w)) = backend w"
  "clock (snd (saveArticlesOffline arts w)) = clock w"
  by (simp_all add: saveArticlesOffline_run split: option.splits)

lemma saveArticlesOffline_lookup_list:
  "KEYS_ARTICLES \<notin> set (write_rejected w) \<Longrightarrow>
   map_of (storage (snd (saveArticlesOffline arts w))) KEYS_ARTICLES =
     Some (Json_text (Article_list (map article_list_entry arts)))"
  by (simp add: saveArticlesOffline_run store_fold_lookup update_conv' split: option.splits)

lemma saveArticlesOffline_lookup_detail:
  "KEYS_ARTICLES \<notin> set (write_rejected w) \<Longrightarrow>
   map_of (storage (snd (saveArticlesOffline arts w))) (KEYS_ARTICLE_PREFIX @ i) =
     (if KEYS_ARTICLE_PREFIX @ i \<in> set (write_rejected w)
         \<or> filter (\<lambda>a. article_summary.id' a = i) arts = []
      then map_of (storage w) (KEYS_ARTICLE_PREFIX @ i)
      else Some (Json_text (Article_obj (last (filter (\<lambda>a. article_summary.id' a = i) arts)))))"
  by (cases "KEYS_ARTICLE_PREFIX @ i \<in> set (write_rejected w)")
     (simp_all add: saveArticlesOffline_run store_fold_lookup update_conv'
        cong: conj_cong split: option.splits)


lemma saveArticlesOffline_lookup_sync:
  "map_of (storage (snd (saveArticlesOffline arts w))) KEYS_LAST_SYNC =
     (if KEYS_ARTICLES \<notin> set (write_rejected w) \<and>
         (\<forall>a\<in>set arts. KEYS_ARTICLE_PREFIX @ article_summary.id' a \<notin> set (write_rejected w)) \<and>
         KEYS_LAST_SYNC \<notin> set (write_rejected w)
      then Some (Iso_text (clock w))
      else map_of (storage w) KEYS_LAST_SYNC)"
  by (auto simp add: saveArticlesOffline_run store_fold_lookup update_conv' filter_empty_conv
      find_None_iff keys_distinct [symmetric] dest: find_Some_holds split: option.splits)

lemma saveQuizzesOffline_frame:
  "write_rejected (snd (saveQuizzesOffline qzs w)) = write_rejected w"
  "read_rejected (snd (saveQuizzesOffline qzs w)) = read_rejected w"
  "isConnected (snd (saveQuizzesOffline qzs w)) = isConnected w"
  "backend (snd (saveQuizzesOffline qzs w)) = backend w"
  "clock (snd (saveQuizzesOffline qzs w)) = clock w"
  by (simp_all add: saveQuizzesOffline_run split: option.splits)

lemma saveQuizzesOffline_lookup_list:
  "KEYS_QUIZZES \<notin> set (write_rejected w) \<Longrightarrow>
   map_of (storage (snd (saveQuizzesOffline qzs w))) KEYS_QUIZZES =
     Some (Json_text (Quiz_list (map quiz_list_entry qzs)))"
  by (simp add: saveQuizzesOffline_run store_fold_lookup update_conv' split: option.splits)

lemma saveQuizzesOffline_lookup_detail:
  "KEYS_QUIZZES \<notin> set (write_rejected w) \<Longrightarrow>
   map_of (storage (snd (saveQuizzesOffline qzs w))) (KEYS_QUIZ_PREFIX @ i) =
     (if KEYS_QUIZ_PREFIX @ i \<in> set (write_rejected w)
         \<or> filter (\<lambda>q. quiz_summary.id' q = i) qzs = []
      then map_of (storage w) (KEYS_QUIZ_PREFIX @ i)
      else Some (Json_text (Quiz_obj (last (filter (\<lambda>q. quiz_summary.id' q = i) qzs)))))"
  by (cases "KEYS_QUIZ_PREFIX @ i \<in> set (write_rejected w)")
     (simp_all add: saveQuizzesOffline_run store_fold_lookup update_conv'
        cong: conj_cong split: option.splits)


lemma saveQuizzesOffline_lookup_sync:
  "map_of (storage (snd (saveQuizzesOffline qzs w))) KEYS_LAST_SYNC =
     (if KEYS_QUIZZES \<notin> set (write_rejected w) \<and>
         (\<forall>q\<in>set qzs. KEYS_QUIZ_PREFIX @ quiz_summary.id' q \<notin> set (write_rejected w)) \<and>
         KEYS_LAST_SYNC \<notin> set (write_rejected w)
      then Some (Iso_text (clock w))
      else map_of (storage w) KEYS_LAST_SYNC)"
  by (auto simp add: saveQuizzesOffline_run store_fold_lookup update_conv' filter_empty_conv
      find_None_iff keys_distinct [symmetric] dest: find_Some_holds split: option.splits)

lemma article_list_entry_id [simp]:
  "article_summary.id' (article_list_entry a) = article_summary.id' a"
  by (simp add: article_list_entry_def)

lemma article_list_entry_is_premium [simp]:
  "article_summary.is_premium (article_list_entry a) = article_summary.is_premium a"
  by (simp add: article_list_entry_def)

lemma quiz_list_entry_id [simp]:
  "quiz_summary.id' (quiz_list_entry q) = quiz_summary.id' q"
  by (simp add: quiz_list_entry_def)

lemma quiz_list_entry_article_id [simp]:
  "quiz_summary.article_id (quiz_list_entry q) = quiz_summary.article_id q"
  by (simp add: quiz_list_entry_def)

lemma articles_round_trip:
  assumes "KEYS_ARTICLES \<notin> set (write_rejected w) \<union> set (read_rejected w)"
    and "\<forall>a\<in>set arts. KEYS_ARTICLE_PREFIX @ article_summary.id' a
           \<notin> set (write_rejected w) \<union> set (read_rejected w)"
  shows "getOfflineArticles (snd (saveArticlesOffline arts w)) =
           (Inr (map article_list_entry arts), snd (saveArticlesOffline arts w))"
    and "a \<in> set arts \<Longrightarrow>
         getOfflineArticle (article_summary.id' a) (snd (saveArticlesOffline arts w)) =
           (Inr (Some (last (filter (\<lambda>b. article_summary.id' b = article_summary.id' a) arts))),
            snd (saveArticlesOffline arts w))"
proof -
  show "getOfflineArticles (snd (saveArticlesOffline arts w)) =
           (Inr (map article_list_entry arts), snd (saveArticlesOffline arts w))"
    using assms(1)
    by (simp add: getOfflineArticles_run saveArticlesOffline_frame saveArticlesOffline_lookup_list)
next
  assume a: "a \<in> set arts"
  then have ne: "filter (\<lambda>b. article_summary.id' b = article_summary.id' a) arts \<noteq> []"
    by (auto simp: filter_empty_conv)
  show "getOfflineArticle (article_summary.id' a) (snd (saveArticlesOffline arts w)) =
           (Inr (Some (last (filter (\<lambda>b. article_summary.id' b = article_summary.id' a) arts))),
            snd (saveArticlesOffline arts w))"
    using assms a ne
    by (simp add: getOfflineArticle_run saveArticlesOffline_frame
        saveArticlesOffline_lookup_detail)
qed

lemma quizzes_round_trip:
  assumes "KEYS_QUIZZES \<notin> set (write_rejected w) \<union> set (read_rejected w)"
    and "\<forall>q\<in>set qzs. KEYS_QUIZ_PREFIX @ quiz_summary.id' q
           \<notin> set (write_rejected w) \<union> set (read_rejected w)"
  shows "getOfflineQuizzes (snd (saveQuizzesOffline qzs w)) =
           (Inr (map quiz_list_entry qzs), snd (saveQuizzesOffline qzs w))"
    and "q \<in> set qzs \<Longrightarrow>
         getOfflineQuiz (quiz_summary.id' q) (snd (saveQuizzesOffline qzs w)) =
           (Inr (Some (last (filter (\<lambda>b. quiz_summary.id' b = quiz_summary.id' q) qzs))),
            snd (saveQuizzesOffline qzs w))"
proof -
  show "getOfflineQuizzes (snd (saveQuizzesOffline qzs w)) =
           (Inr (map quiz_list_entry qzs), snd (saveQuizzesOffline qzs w))"
    using assms(1)
    by (simp add: getOfflineQuizzes_run saveQuizzesOffline_frame saveQuizzesOffline_lookup_list)
next
  assume q: "q \<in> set qzs"
  then have ne: "filter (\<lambda>b. quiz_summary.id' b = quiz_summary.id' q) qzs \<noteq> []"
    by (auto simp: filter_empty_conv)
  show "getOfflineQuiz (quiz_summary.id' q) (snd (saveQuizzesOffline qzs w)) =
           (Inr (Some (last (filter (\<lambda>b. quiz_summary.id' b = quiz_summary.id' q) qzs))),
            snd (saveQuizzesOffline qzs w))"
    using assms q ne
    by (simp add: getOfflineQuiz_run saveQuizzesOffline_frame saveQuizzesOffline_lookup_detail)
qed

lemma saveArticlesOffline_result: "fst (saveArticlesOffline arts w) = Inr ()"
  by (simp add: saveArticlesOffline_run)

lemma saveQuizzesOffline_result: "fst (saveQuizzesOffline qzs w) = Inr ()"
  by (simp add: saveQuizzesOffline_run)

lemma saveArticlesOffline_calls:
  "calls (snd (saveArticlesOffline arts w)) =
     calls w @
     (if KEYS_ARTICLES \<in> set (write_rejected w) then [Storage_setItem KEYS_ARTICLES]
      else Storage_setItem KEYS_ARTICLES #
           map (\<lambda>a. Storage_setItem (KEYS_ARTICLE_PREFIX @ article_summary.id' a)) arts @
           (if \<forall>a\<in>set arts. KEYS_ARTICLE_PREFIX @ article_summary.id' a \<notin> set (write_rejected w)
            then [Storage_setItem KEYS_LAST_SYNC] else []))"
  by (auto simp add: saveArticlesOffline_run find_None_iff dest: find_Some_holds
      split: option.splits)

lemma saveArticlesOffline_console:
  "console (snd (saveArticlesOffline arts w)) =
     console w @
     (if KEYS_ARTICLES \<in> set (write_rejected w)
      then [Console_error ''Error saving articles offline:'' (Storage_error KEYS_ARTICLES)]
      else
        (case find (\<lambda>a. KEYS_ARTICLE_PREFIX @ article_summary.id' a \<in> set (write_rejected w))
                arts of
           Some x \<Rightarrow> [Console_error ''Error saving articles offline:''
                        (Storage_error (KEYS_ARTICLE_PREFIX @ article_summary.id' x))]
         | None \<Rightarrow>
             if KEYS_LAST_SYNC \<in> set (write_rejected w)
             then [Console_error ''Error saving last sync time:'' (Storage_error KEYS_LAST_SYNC)]
             else []))"
  by (simp add: saveArticlesOffline_run split: option.splits)

lemma saveArticlesOffline_list_rejected:
  "KEYS_ARTICLES \<in> set (write_rejected w) \<Longrightarrow>
   storage (snd (saveArticlesOffline arts w)) = storage w"
  by (simp add: saveArticlesOffline_run)

lemma saveQuizzesOffline_calls:
  "calls (snd (saveQuizzesOffline qzs w)) =
     calls w @
     (if KEYS_QUIZZES \<in> set (write_rejected w) then [Storage_setItem KEYS_QUIZZES]
      else Storage_setItem KEYS_QUIZZES #
           map (\<lambda>q. Storage_setItem (KEYS_QUIZ_PREFIX @ quiz_summary.id' q)) qzs @
           (if \<forall>q\<in>set qzs. KEYS_QUIZ_PREFIX @ quiz_summary.id' q \<notin> set (write_rejected w)
            then [Storage_setItem KEYS_LAST_SYNC] else []))"
  by (auto simp add: saveQuizzesOffline_run find_None_iff dest: find_Some_holds
      split: option.splits)

lemma saveQuizzesOffline_console:
  "console (snd (saveQuizzesOffline qzs w)) =
     console w @
     (if KEYS_QUIZZES \<in> set (write_rejected w)
      then [Console_error ''Error saving quizzes offline:'' (Storage_error KEYS_QUIZZES)]
      else
        (case find (\<lambda>q. KEYS_QUIZ_PREFIX @ quiz_summary.id' q \<in> set (write_rejected w)) qzs of
           Some x \<Rightarrow> [Console_error ''Error saving quizzes offline:''
                        (Storage_error (KEYS_QUIZ_PREFIX @ quiz_summary.id' x))]
         | None \<Rightarrow>
             if KEYS_LAST_SYNC \<in> set (write_rejected w)
             then [Console_error ''Error saving last sync time:'' (Storage_error KEYS_LAST_SYNC)]
             else []))"
  by (simp add: saveQuizzesOffline_run split: option.splits)

lemma saveQuizzesOffline_list_rejected:
  "KEYS_QUIZZES \<in> set (write_rejected w) \<Longrightarrow>
   storage (snd (saveQuizzesOffline qzs w)) = storage w"
  by (simp add: saveQuizzesOffline_run)

lemma articles_best_effort:
  assumes "saveArticlesOffline arts w = (r, w')"
  shows "r = Inr () \<and>
    (KEYS_ARTICLES \<in> set (write_rejected w) \<longrightarrow>
       calls w' = calls w @ [Storage_setItem KEYS_ARTICLES] \<and> storage w' = storage w) \<and>
    (KEYS_ARTICLES \<notin> set (write_rejected w) \<longrightarrow>
       calls w' = calls w @ Storage_setItem KEYS_ARTICLES #
         map (\<lambda>a. Storage_setItem (KEYS_ARTICLE_PREFIX @ article_summary.id' a)) arts @
         (if \<forall>a\<in>set arts. KEYS_ARTICLE_PREFIX @ article_summary.id' a \<notin> set (write_rejected w)
          then [Storage_setItem KEYS_LAST_SYNC] else []) \<and>
       (\<forall>a\<in>set arts. KEYS_ARTICLE_PREFIX @ article_summary.id' a \<notin> set (write_rejected w) \<longrightarrow>
          map_of (storage w') (KEYS_ARTICLE_PREFIX @ article_summary.id' a) =
            Some (Json_text (Article_obj
              (last (filter (\<lambda>b. article_summary.id' b = article_summary.id' a) arts)))))) \<and>
    (KEYS_ARTICLES \<in> set (write_rejected w) \<or>
     (\<exists>a\<in>set arts. KEYS_ARTICLE_PREFIX @ article_summary.id' a \<in> set (write_rejected w)) \<longrightarrow>
       map_of (storage w') KEYS_LAST_SYNC = map_of (storage w) KEYS_LAST_SYNC \<and>
       (\<exists>k\<in>set (write_rejected w). console w' = console w @
          [Console_error ''Error saving articles offline:'' (Storage_error k)])) \<and>
    (KEYS_ARTICLES \<notin> set (write_rejected w) \<and>
     (\<forall>a\<in>set arts. KEYS_ARTICLE_PREFIX @ article_summary.id' a \<notin> set (write_rejected w)) \<and>
     KEYS_LAST_SYNC \<notin> set (write_rejected w) \<longrightarrow>
       map_of (storage w') KEYS_LAST_SYNC = Some (Iso_text (clock w)) \<and> console w' = console w)"
proof -
  have w': "w' = snd (saveArticlesOffline arts w)" and r: "r = fst (saveArticlesOffline arts w)"
    using assms by simp_all
  have 1: "r = Inr ()"
    by (simp add: r saveArticlesOffline_result)
  have 2: "KEYS_ARTICLES \<in> set (write_rejected w) \<longrightarrow>
       calls w' = calls w @ [Storage_setItem KEYS_ARTICLES] \<and> storage w' = storage w"
    by (simp add: w' saveArticlesOffline_calls saveArticlesOffline_list_rejected)
  have 3: "KEYS_ARTICLES \<notin> set (write_rejected w) \<longrightarrow>
       calls w' = calls w @ Storage_setItem KEYS_ARTICLES #
         map (\<lambda>a. Storage_setItem (KEYS_ARTICLE_PREFIX @ article_summary.id' a)) arts @
         (if \<forall>a\<in>set arts. KEYS_ARTICLE_PREFIX @ article_summary.id' a \<notin> set (write_rejected w)
          then [Storage_setItem KEYS_LAST_SYNC] else [])"
    by (simp add: w' saveArticlesOffline_calls)
  have 4: "KEYS_ARTICLES \<notin> set (write_rejected w) \<longrightarrow>
       (\<forall>a\<in>set arts. KEYS_ARTICLE_PREFIX @ article_summary.id' a \<notin> set (write_rejected w) \<longrightarrow>
          map_of (storage w') (KEYS_ARTICLE_PREFIX @ article_summary.id' a) =
            Some (Json_text (Article_obj
              (last (filter (\<lambda>b. article_summary.id' b = article_summary.id' a) arts)))))"
    by (auto simp add: w' saveArticlesOffline_lookup_detail filter_empty_conv)
  have 5: "KEYS_ARTICLES \<in> set (write_rejected w) \<or>
     (\<exists>a\<in>set arts. KEYS_ARTICLE_PREFIX @ article_summary.id' a \<in> set (write_rejected w)) \<longrightarrow>
       map_of (storage w') KEYS_LAST_SYNC = map_of (storage w) KEYS_LAST_SYNC"
    by (auto simp add: w' saveArticlesOffline_lookup_sync)
  have 6: "KEYS_ARTICLES \<in> set (write_rejected w) \<or>
     (\<exists>a\<in>set arts. KEYS_ARTICLE_PREFIX @ article_summary.id' a \<in> set (write_rejected w)) \<longrightarrow>
       (\<exists>k\<in>set (write_rejected w). console w' = console w @
          [Console_error ''Error saving articles offline:'' (Storage_error k)])"
    by (auto simp add: w' saveArticlesOffline_console find_None_iff dest: find_Some_holds
        split: option.splits)
  have 7: "KEYS_ARTICLES \<notin> set (write_rejected w) \<and>
     (\<forall>a\<in>set arts. KEYS_ARTICLE_PREFIX @ article_summary.id' a \<notin> set (write_rejected w)) \<and>
     KEYS_LAST_SYNC \<notin> set (write_rejected w) \<longrightarrow>
       map_of (storage w') KEYS_LAST_SYNC = Some (Iso_text (clock w)) \<and> console w' = console w"
    by (auto simp add: w' saveArticlesOffline_console saveArticlesOffline_lookup_sync
        find_None_iff dest: find_Some_holds split: option.splits)
  from 1 2 3 4 5 6 7 show ?thesis by blast
qed

lemma quizzes_best_effort:
  assumes "saveQuizzesOffline qzs w = (r, w')"
  shows "r = Inr () \<and>
    (KEYS_QUIZZES \<in> set (write_rejected w) \<longrightarrow>
       calls w' = calls w @ [Storage_setItem KEYS_QUIZZES] \<and> storage w' = storage w) \<and>
    (KEYS_QUIZZES \<notin> set (write_rejected w) \<longrightarrow>
       calls w' = calls w @ Storage_setItem KEYS_QUIZZES #
         map (\<lambda>q. Storage_setItem (KEYS_QUIZ_PREFIX @ quiz_summary.id' q)) qzs @
         (if \<forall>q\<in>set qzs. KEYS_QUIZ_PREFIX @ quiz_summary.id' q \<notin> set (write_rejected w)
          then [Storage_setItem KEYS_LAST_SYNC] else []) \<and>
       (\<forall>q\<in>set qzs. KEYS_QUIZ_PREFIX @ quiz_summary.id' q \<notin> set (write_rejected w) \<longrightarrow>
          map_of (storage w') (KEYS_QUIZ_PREFIX @ quiz_summary.id' q) =
            Some (Json_text (Quiz_obj
              (last (filter (\<lambda>b. quiz_summary.id' b = quiz_summary.id' q) qzs)))))) \<and>
    (KEYS_QUIZZES \<in> set (write_rejected w) \<or>
     (\<exists>q\<in>set qzs. KEYS_QUIZ_PREFIX @ quiz_summary.id' q \<in> set (write_rejected w)) \<longrightarrow>
       map_of (storage w') KEYS_LAST_SYNC = map_of (storage w) KEYS_LAST_SYNC \<and>
       (\<exists>k\<in>set (write_rejected w). console w' = console w @
          [Console_error ''Error saving quizzes offline:'' (Storage_error k)])) \<and>
    (KEYS_QUIZZES \<notin> set (write_rejected w) \<and>
     (\<forall>q\<in>set qzs. KEYS_QUIZ_PREFIX @ quiz_summary.id' q \<notin> set (write_rejected w)) \<and>
     KEYS_LAST_SYNC \<notin> set (write_rejected w) \<longrightarrow>
       map_of (storage w') KEYS_LAST_SYNC = Some (Iso_text (clock w)) \<and> console w' = console w)"
proof -
  have w': "w' = snd (saveQuizzesOffline qzs w)" and r: "r = fst (saveQuizzesOffline qzs w)"
    using assms by simp_all
  have 1: "r = Inr ()"
    by (simp add: r saveQuizzesOffline_result)
  have 2: "KEYS_QUIZZES \<in> set (write_rejected w) \<longrightarrow>
       calls w' = calls w @ [Storage_setItem KEYS_QUIZZES] \<and> storage w' = storage w"
    by (simp add: w' saveQuizzesOffline_calls saveQuizzesOffline_list_rejected)
  have 3: "KEYS_QUIZZES \<notin> set (write_rejected w) \<longrightarrow>
       calls w' = calls w @ Storage_setItem KEYS_QUIZZES #
         map (\<lambda>q. Storage_setItem (KEYS_QUIZ_PREFIX @ quiz_summary.id' q)) qzs @
         (if \<forall>q\<in>set qzs. KEYS_QUIZ_PREFIX @ quiz_summary.id' q \<notin> set (write_rejected w)
          then [Storage_setItem KEYS_LAST_SYNC] else [])"
    by (simp add: w' saveQuizzesOffline_calls)
  have 4: "KEYS_QUIZZES \<notin> set (write_rejected w) \<longrightarrow>
       (\<forall>q\<in>set qzs. KEYS_QUIZ_PREFIX @ quiz_summary.id' q \<notin> set (write_rejected w) \<longrightarrow>
          map_of (storage w') (KEYS_QUIZ_PREFIX @ quiz_summary.id' q) =
            Some (Json_text (Quiz_obj
              (last (filter (\<lambda>b. quiz_summary.id' b = quiz_summary.id' q) qzs)))))"
    by (auto simp add: w' saveQuizzesOffline_lookup_detail filter_empty_conv)
  have 5: "KEYS_QUIZZES \<in> set (write_rejected w) \<or>
     (\<exists>q\<in>set qzs. KEYS_QUIZ_PREFIX @ quiz_summary.id' q \<in> set (write_rejected w)) \<longrightarrow>
       map_of (storage w') KEYS_LAST_SYNC = map_of (storage w) KEYS_LAST_SYNC"
    by (auto simp add: w' saveQuizzesOffline_lookup_sync)
  have 6: "KEYS_QUIZZES \<in> set (write_rejected w) \<or>
     (\<exists>q\<in>set qzs. KEYS_QUIZ_PREFIX @ quiz_summary.id' q \<in> set (write_rejected w)) \<longrightarrow>
       (\<exists>k\<in>set (write_rejected w). console w' = console w @
          [Console_error ''Error saving quizzes offline:'' (Storage_error k)])"
    by (auto simp add: w' saveQuizzesOffline_console find_None_iff dest: find_Some_holds
        split: option.splits)
  have 7: "KEYS_QUIZZES \<notin> set (write_rejected w) \<and>
     (\<forall>q\<in>set qzs. KEYS_QUIZ_PREFIX @ quiz_summary.id' q \<notin> set (write_rejected w)) \<and>
     KEYS_LAST_SYNC \<notin> set (write_rejected w) \<longrightarrow>
       map_of (storage w') KEYS_LAST_SYNC = Some (Iso_text (clock w)) \<and> console w' = console w"
    by (auto simp add: w' saveQuizzesOffline_console saveQuizzesOffline_lookup_sync
        find_None_iff dest: find_Some_holds split: option.splits)
  from 1 2 3 4 5 6 7 show ?thesis by blast
qed

subsection \<open>The sync clock and the clearing of the cache\<close>

lemma isSyncNeeded_run:
  "isSyncNeeded w =
     (if KEYS_LAST_SYNC \<in> set (read_rejected w)
      then (Inr True, w\<lparr>console := console w @
              [Console_error ''Error getting last sync time:'' (Storage_error KEYS_LAST_SYNC)]\<rparr>)
      else
        (case map_of (storage w) KEYS_LAST_SYNC of
           None \<Rightarrow> (Inr True, w)
         | Some (Iso_text t) \<Rightarrow> (Inr (24 * (1000 * 60 * 60) < clock w - t), w)
         | Some (Json_text v) \<Rightarrow> (Inr False, w)))"
proof -
  have cmp: "(86400000 < rat_of_int a - rat_of_int b) = (86400000 < a - b)" for a b :: int
  proof -
    have "(86400000 < rat_of_int a - rat_of_int b) = (rat_of_int 86400000 < rat_of_int (a - b))"
      by simp
    also have "\<dots> = (86400000 < a - b)"
      by (simp only: of_int_less_iff)
    finally show ?thesis .
  qed
  show ?thesis
    by (simp add: isSyncNeeded_def getLastSyncTime_def try_catch_def await_def getItem_apply
        console_error_def Date_now_def cmp split: option.splits payload.splits)
qed

lemma map_of_filter_keys:
  "map_of (filter (\<lambda>(k, v). P k) al) key = (if P key then map_of al key else None)"
  by (induction al) auto

lemma clearOfflineData_run:
  "clearOfflineData w =
     (Inr (),
      if \<exists>key\<in>set (filter (\<lambda>key. startsWith key ''econquiz_'') (map fst (storage w))).
           key \<in> set (write_rejected w)
      then w\<lparr>calls := calls w @
               [Storage_multiRemove
                  (filter (\<lambda>key. startsWith key ''econquiz_'') (map fst (storage w)))],
             console := console w @
               [Console_error ''Error clearing offline data:''
                  (Storage_error (hd (filter (\<lambda>key. key \<in> set (write_rejected w))
                     (filter (\<lambda>key. startsWith key ''econquiz_'') (map fst (storage w))))))]\<rparr>
      else w\<lparr>storage :=
               filter (\<lambda>(key, v). key \<notin> set (filter (\<lambda>key. startsWith key ''econquiz_'')
                                                 (map fst (storage w))))
                 (storage w),
             calls := calls w @
               [Storage_multiRemove
                  (filter (\<lambda>key. startsWith key ''econquiz_'') (map fst (storage w)))]\<rparr>)"
  by (auto simp add: clearOfflineData_def try_catch_def await_def AsyncStorage_getAllKeys_def
      AsyncStorage_multiRemove_def console_error_def Let_def)

lemma clearOfflineData_removes_sync:
  assumes "\<forall>key\<in>set (map fst (storage w)).
             startsWith key ''econquiz_'' \<longrightarrow> key \<notin> set (write_rejected w)"
  shows "map_of (storage (snd (clearOfflineData w))) KEYS_LAST_SYNC = None"
proof -
  have ns: "startsWith KEYS_LAST_SYNC ''econquiz_''"
    by (simp add: startsWith_def KEYS_LAST_SYNC_def)
  have absent: "KEYS_LAST_SYNC \<notin> fst ` set (storage w) \<Longrightarrow> map_of (storage w) KEYS_LAST_SYNC = None"
    by (simp add: map_of_eq_None_iff)
  show ?thesis
    using ns absent assms by (auto simp add: clearOfflineData_run map_of_filter_keys)
qed

subsection \<open>Lookup of a quiz by its article\<close>

lemma keys_distinct' [simp]:
  "KEYS_ARTICLES \<noteq> KEYS_ARTICLE_PREFIX @ i"
  "KEYS_QUIZZES \<noteq> KEYS_ARTICLE_PREFIX @ i"
  "KEYS_LAST_SYNC \<noteq> KEYS_ARTICLE_PREFIX @ i"
  "KEYS_ARTICLES \<noteq> KEYS_QUIZ_PREFIX @ i"
  "KEYS_QUIZZES \<noteq> KEYS_QUIZ_PREFIX @ i"
  "KEYS_LAST_SYNC \<noteq> KEYS_QUIZ_PREFIX @ i"
  "KEYS_QUIZZES \<noteq> KEYS_ARTICLES"
  "KEYS_LAST_SYNC \<noteq> KEYS_ARTICLES"
  "KEYS_LAST_SYNC \<noteq> KEYS_QUIZZES"
  using keys_distinct by metis+

lemma example_ids [simp]:
  "article_summary.id' free_article = ''a1''"
  "article_summary.id' premium_article = ''a2''"
  "quiz_summary.id' sample_quiz = ''q1''"
  "quiz_summary.article_id sample_quiz = ''A1''"
  "article_summary.is_premium free_article = False"
  "article_summary.is_premium premium_article = True"
  by (simp_all add: free_article_def premium_article_def sample_quiz_def)

lemma fresh_world_fields [simp]:
  "storage fresh_world = []"
  "write_rejected fresh_world = []"
  "read_rejected fresh_world = []"
  "isConnected fresh_world = Some True"
  "backend fresh_world = empty_backend"
  "clock fresh_world = 1700000000000"
  "console fresh_world = []"
  "calls fresh_world = []"
  by (simp_all add: fresh_world_def)

lemma find_first:
  "\<forall>p\<in>set pre. \<not> P p \<Longrightarrow> P q \<Longrightarrow> find P (pre @ q # post) = Some q"
  by (induction pre) simp_all

lemma getOfflineQuizByArticleId_found:
  assumes "KEYS_QUIZZES \<notin> set (read_rejected w)"
    and "map_of (storage w) KEYS_QUIZZES = Some (Json_text (Quiz_list qs))"
    and "find (\<lambda>q. quiz_summary.article_id q = a) qs = Some q"
  shows "getOfflineQuizByArticleId a w =
           (if quiz_summary.id' q = [] then (Inr None, w)
            else getOfflineQuiz (quiz_summary.id' q) w)"
proof -
  have l: "getOfflineQuizzes w = (Inr qs, w)"
    using assms(1,2) by (simp add: getOfflineQuizzes_run)
  obtain r w1 where d: "getOfflineQuiz (quiz_summary.id' q) w = (Inr r, w1)"
    using getOfflineQuiz_never_throws by blast
  show ?thesis
    by (simp add: getOfflineQuizByArticleId_def try_catch_def await_def l assms(3) d)
qed

lemma getOfflineQuizByArticleId_not_found:
  assumes "KEYS_QUIZZES \<notin> set (read_rejected w)"
    and "map_of (storage w) KEYS_QUIZZES = Some (Json_text (Quiz_list qs))"
    and "find (\<lambda>q. quiz_summary.article_id q = a) qs = None"
  shows "getOfflineQuizByArticleId a w = (Inr None, w)"
proof -
  have l: "getOfflineQuizzes w = (Inr qs, w)"
    using assms(1,2) by (simp add: getOfflineQuizzes_run)
  show ?thesis
    by (simp add: getOfflineQuizByArticleId_def try_catch_def await_def l assms(3))
qed

subsection \<open>The fetch operations\<close>

lemma offline_world_fields [simp]:
  "storage offline_world = []"
  "write_rejected offline_world = []"
  "read_rejected offline_world = []"
  "isConnected offline_world = Some False"
  "backend offline_world = empty_backend"
  "clock offline_world = 1700000000000"
  "console offline_world = []"
  "calls offline_world = []"
  by (simp_all add: offline_world_def)

lemma NetInfo_fetch_apply: "NetInfo_fetch w = (Inr (isConnected w), w)"
  by (simp add: NetInfo_fetch_def)

lemma supabase_query_apply:
  "supabase_query table q w =
     (Inr (case map_of (faults (backend w)) table of Some e \<Rightarrow> Inl e | None \<Rightarrow> q (backend w)),
      w\<lparr>calls := calls w @ [Remote_request table]\<rparr>)"
  by (simp add: supabase_query_def)

lemma getOfflineArticles_never_throws: "\<exists>xs w'. getOfflineArticles w = (Inr xs, w')"
  by (simp add: getOfflineArticles_run split: option.splits payload.splits json.splits)

lemma getOfflineArticles_cached:
  "KEYS_ARTICLES \<notin> set (read_rejected w) \<Longrightarrow>
   map_of (storage w) KEYS_ARTICLES = Some (Json_text (Article_list cached)) \<Longrightarrow>
   getOfflineArticles w = (Inr cached, w)"
  by (simp add: getOfflineArticles_run)

lemma fetchArticles_offline:
  assumes "isConnected w \<noteq> Some True"
    and "getOfflineArticles w = (Inr xs, w1)"
  shows "fetchArticles isPremiumUser w =
           (Inr (Cached_entries (filter (\<lambda>article.
              isPremiumUser \<or> \<not> article_summary.is_premium article) xs)), w1)"
  using assms
  by (simp add: fetchArticles_def try_catch_def await_def NetInfo_fetch_apply)

lemma fetchArticles_remote_failure:
  assumes "isConnected w = Some True"
    and "map_of (faults (backend w)) ''articles'' = Some e"
    and "getOfflineArticles
           (w\<lparr>calls := calls w @ [Remote_request ''articles''],
              console := console w @ [Console_error ''Error in fetchArticles:'' e]\<rparr>) =
         (Inr xs, w1)"
  shows "fetchArticles isPremiumUser w =
           (Inr (Cached_entries (filter (\<lambda>article.
              isPremiumUser \<or> \<not> article_summary.is_premium article) xs)), w1)"
  using assms
  by (simp add: fetchArticles_def try_catch_def await_def NetInfo_fetch_apply
      supabase_query_apply console_error_def)

lemma saveArticlesOffline_returns:
  "saveArticlesOffline arts w = (Inr (), snd (saveArticlesOffline arts w))"
  using saveArticlesOffline_result [of arts w] by (metis prod.collapse)


lemma fetchArticles_remote_success:
  assumes "isConnected w = Some True"
    and "map_of (faults (backend w)) ''articles'' = None"
    and "select_articles (\<not> isPremiumUser) (backend w) = Inr data"
  shows "fetchArticles isPremiumUser w =
           (Inr (Remote_rows data),
            snd (saveArticlesOffline data (w\<lparr>calls := calls w @ [Remote_request ''articles'']\<rparr>)))"
proof -
  obtain w2 where s:
    "saveArticlesOffline data (w\<lparr>calls := calls w @ [Remote_request ''articles'']\<rparr>) = (Inr (), w2)"
    using saveArticlesOffline_returns by blast
  then have w2: "snd (saveArticlesOffline data (w\<lparr>calls := calls w @ [Remote_request ''articles'']\<rparr>)) = w2"
    by simp
  have "fetchArticles isPremiumUser w = (Inr (Remote_rows data), w2)"
    using assms
    by (simp add: fetchArticles_def try_catch_def await_def NetInfo_fetch_apply
      supabase_query_apply s)
  then show ?thesis
    by (simp only: w2)
qed

lemma saved_articles_read_back:
  assumes "KEYS_ARTICLES \<notin> set (write_rejected w) \<union> set (read_rejected w)"
  shows "getOfflineArticles (snd (saveArticlesOffline arts w)) =
           (Inr (map article_list_entry arts), snd (saveArticlesOffline arts w))"
  using assms
  by (simp add: getOfflineArticles_run saveArticlesOffline_frame saveArticlesOffline_lookup_list)


lemma select_articles_free:
  "select_articles True b = Inr rows \<Longrightarrow>
   set rows = {a \<in> set (articles_rows b). \<not> article_summary.is_premium a}"
  by (auto simp add: select_articles_def)

lemma select_articles_answers: "\<exists>rows. select_articles free_only b = Inr rows"
  by (simp add: select_articles_def)

lemma fetchArticles_free_returned:
  assumes "fetchArticles False w = (Inr r, w')"
  shows "case r of
           Remote_rows xs \<Rightarrow> \<forall>a\<in>set xs. \<not> article_summary.is_premium a
         | Cached_entries xs \<Rightarrow> \<forall>a\<in>set xs. \<not> article_summary.is_premium a"
proof (cases "isConnected w = Some True")
  case False
  obtain xs w1 where "getOfflineArticles w = (Inr xs, w1)"
    using getOfflineArticles_never_throws by blast
  from fetchArticles_offline [OF False this, of False] assms show ?thesis
    by auto
next
  case True
  show ?thesis
  proof (cases "map_of (faults (backend w)) ''articles''")
    case None
    obtain rows where rows: "select_articles (\<not> False) (backend w) = Inr rows"
      using select_articles_answers by blast
    then have "\<forall>a\<in>set rows. \<not> article_summary.is_premium a"
      using select_articles_free [of "backend w" rows] by simp
    with fetchArticles_remote_success [OF True None rows] assms show ?thesis
      by auto
  next
    case (Some e)
    obtain xs w1 where "getOfflineArticles
           (w\<lparr>calls := calls w @ [Remote_request ''articles''],
              console := console w @ [Console_error ''Error in fetchArticles:'' e]\<rparr>) =
         (Inr xs, w1)"
      using getOfflineArticles_never_throws by blast
    from fetchArticles_remote_failure [OF True Some this, of False] assms show ?thesis
      by auto
  qed
qed

lemma getOfflineArticles_well_shaped:
  assumes "map_of (storage w) KEYS_ARTICLES = None \<or>
           (\<exists>cached. map_of (storage w) KEYS_ARTICLES = Some (Json_text (Article_list cached)))"
  shows "\<exists>xs. getOfflineArticles w =
           (Inr xs,
            if KEYS_ARTICLES \<in> set (read_rejected w)
            then w\<lparr>console := console w @
                   [Console_error ''Error getting offline articles:''
                      (Storage_error KEYS_ARTICLES)]\<rparr>
            else w) \<and>
         (xs = [] \<or> map_of (storage w) KEYS_ARTICLES = Some (Json_text (Article_list xs)))"
  using assms by (auto simp add: getOfflineArticles_run)

lemma fetchArticles_free_remote:
  assumes "isConnected w = Some True"
    and "map_of (faults (backend w)) ''articles'' = None"
  shows "\<exists>rows w'. fetchArticles False w = (Inr (Remote_rows rows), w') \<and>
           (\<forall>a\<in>set rows. \<not> article_summary.is_premium a)"
proof -
  obtain rows where rows: "select_articles (\<not> False) (backend w) = Inr rows"
    using select_articles_answers by blast
  then have "\<forall>a\<in>set rows. \<not> article_summary.is_premium a"
    using select_articles_free [of "backend w" rows] by simp
  with fetchArticles_remote_success [OF assms rows] show ?thesis
    by blast
qed

lemma fetchArticles_free_fallback:
  assumes "isConnected w \<noteq> Some True \<or> map_of (faults (backend w)) ''articles'' \<noteq> None"
    and "map_of (storage w) KEYS_ARTICLES = None \<or>
         (\<exists>cached. map_of (storage w) KEYS_ARTICLES = Some (Json_text (Article_list cached)))"
  shows "\<exists>xs w'. fetchArticles False w = (Inr (Cached_entries xs), w') \<and>
           (\<forall>a\<in>set xs. \<not> article_summary.is_premium a)"
proof (cases "isConnected w = Some True")
  case False
  obtain xs w1 where "getOfflineArticles w = (Inr xs, w1)"
    using getOfflineArticles_well_shaped [OF assms(2)] by blast
  from fetchArticles_offline [OF False this, of False] show ?thesis
    by simp
next
  case True
  with assms(1) obtain e where e: "map_of (faults (backend w)) ''articles'' = Some e"
    by auto
  let ?w1 = "w\<lparr>calls := calls w @ [Remote_request ''articles''],
              console := console w @ [Console_error ''Error in fetchArticles:'' e]\<rparr>"
  have "map_of (storage ?w1) KEYS_ARTICLES = None \<or>
         (\<exists>cached. map_of (storage ?w1) KEYS_ARTICLES = Some (Json_text (Article_list cached)))"
    using assms(2) by simp
  then obtain xs w1 where "getOfflineArticles ?w1 = (Inr xs, w1)"
    using getOfflineArticles_well_shaped [of ?w1] by blast
  from fetchArticles_remote_failure [OF True e this, of False] show ?thesis
    by simp
qed

lemma fetchArticles_fallback_run:
  assumes "isConnected w = Some True"
    and "map_of (faults (backend w)) ''articles'' = Some e"
    and "KEYS_ARTICLES \<notin> set (read_rejected w)"
    and "map_of (storage w) KEYS_ARTICLES = Some (Json_text (Article_list cached))"
  shows "fetchArticles isPremiumUser w =
           (Inr (Cached_entries (filter (\<lambda>article.
              isPremiumUser \<or> \<not> article_summary.is_premium article) cached)),
            w\<lparr>calls := calls w @ [Remote_request ''articles''],
              console := console w @ [Console_error ''Error in fetchArticles:'' e]\<rparr>)"
proof -
  let ?w1 = "w\<lparr>calls := calls w @ [Remote_request ''articles''],
              console := console w @ [Console_error ''Error in fetchArticles:'' e]\<rparr>"
  have "getOfflineArticles ?w1 = (Inr cached, ?w1)"
    using assms(3,4) by (simp add: getOfflineArticles_cached)
  from fetchArticles_remote_failure [OF assms(1,2) this, of isPremiumUser]
  show ?thesis .
qed

lemma failing_remote_world_fields:
  "isConnected failing_remote_world = Some True"
  "map_of (faults (backend failing_remote_world)) ''articles'' = Some (Postgrest_error ''500'')"
  "KEYS_ARTICLES \<notin> set (read_rejected failing_remote_world)"
  "map_of (storage failing_remote_world) KEYS_ARTICLES =
     Some (Json_text (Article_list [article_list_entry premium_article]))"
  by (simp_all add: failing_remote_world_def saveArticlesOffline_frame
      saveArticlesOffline_lookup_list empty_backend_def)

lemma stocked_world_fields:
  "isConnected stocked_world = Some True"
  "write_rejected stocked_world = []"
  "read_rejected stocked_world = []"
  "backend stocked_world = stocked_backend"
  "map_of (storage stocked_world) KEYS_ARTICLES =
     Some (Json_text (Article_list
       [article_list_entry free_article, article_list_entry premium_article]))"
  "map_of (storage stocked_world) (KEYS_ARTICLE_PREFIX @ ''a1'') =
     Some (Json_text (Article_obj free_article))"
  "map_of (storage stocked_world) (KEYS_ARTICLE_PREFIX @ ''a2'') =
     Some (Json_text (Article_obj premium_article))"
  by (simp_all add: stocked_world_def saveArticlesOffline_frame
      saveArticlesOffline_lookup_list saveArticlesOffline_lookup_detail)







subsection \<open>The writes keep the shapes of the stored records\<close>

lemma list_all_update:
  "list_all P al \<Longrightarrow> P (k, v) \<Longrightarrow> list_all P (AList.update k v al)"
  by (induction al) auto

lemma list_all_store_fold:
  "list_all P s0 \<Longrightarrow> \<forall>x\<in>set xs. P (k x, v x) \<Longrightarrow>
   list_all P (fold (\<lambda>x s. if k x \<in> set rej then s else AList.update (k x) (v x) s) xs s0)"
  by (induction xs arbitrary: s0) (simp_all add: list_all_update)

lemma shape_expected_written:
  "shape_expected KEYS_ARTICLES (Json_text (Article_list xs))"
  "shape_expected KEYS_QUIZZES (Json_text (Quiz_list qs))"
  "shape_expected KEYS_LAST_SYNC (Iso_text t)"
  "shape_expected (KEYS_ARTICLE_PREFIX @ i) (Json_text (Article_obj a))"
  "shape_expected (KEYS_QUIZ_PREFIX @ i) (Json_text (Quiz_obj q))"
proof -
  have "\<not> startsWith (KEYS_QUIZ_PREFIX @ i) KEYS_ARTICLE_PREFIX"
    by (simp add: startsWith_def KEYS_QUIZ_PREFIX_def KEYS_ARTICLE_PREFIX_def)
  then show "shape_expected (KEYS_QUIZ_PREFIX @ i) (Json_text (Quiz_obj q))"
    by (simp add: startsWith_def)
qed (simp_all add: startsWith_def keys_distinct')

lemma well_shaped_fresh: "well_shaped fresh_world"
  by (simp add: well_shaped_def fresh_world_def)

lemma well_shaped_saveArticlesOffline:
  "well_shaped w \<Longrightarrow> well_shaped (snd (saveArticlesOffline arts w))"
  unfolding well_shaped_def
  by (simp add: saveArticlesOffline_run list_all_update list_all_store_fold
      shape_expected_written del: shape_expected.simps split: option.splits)

lemma well_shaped_saveQuizzesOffline:
  "well_shaped w \<Longrightarrow> well_shaped (snd (saveQuizzesOffline qzs w))"
  unfolding well_shaped_def
  by (simp add: saveQuizzesOffline_run list_all_update list_all_store_fold
      shape_expected_written del: shape_expected.simps split: option.splits)

lemma well_shaped_clearOfflineData:
  "well_shaped w \<Longrightarrow> well_shaped (snd (clearOfflineData w))"
  unfolding well_shaped_def
  by (simp add: clearOfflineData_run list_all_iff del: shape_expected.simps)

lemma well_shaped_lookup:
  assumes "well_shaped w" and "map_of (storage w) key = Some p"
  shows "shape_expected key p"
proof -
  from assms(2) have "(key, p) \<in> set (storage w)"
    by (rule map_of_SomeD)
  with assms(1) show ?thesis
    unfolding well_shaped_def list_all_iff by blast
qed

lemma well_shaped_reads:
  assumes "well_shaped w"
  shows "map_of (storage w) KEYS_ARTICLES = None \<or>
         (\<exists>held. map_of (storage w) KEYS_ARTICLES = Some (Json_text (Article_list held)))"
    and "map_of (storage w) KEYS_QUIZZES = None \<or>
         (\<exists>held. map_of (storage w) KEYS_QUIZZES = Some (Json_text (Quiz_list held)))"
    and "map_of (storage w) (KEYS_ARTICLE_PREFIX @ i) = None \<or>
         (\<exists>a. map_of (storage w) (KEYS_ARTICLE_PREFIX @ i) = Some (Json_text (Article_obj a)))"
    and "map_of (storage w) (KEYS_QUIZ_PREFIX @ i) = None \<or>
         (\<exists>q. map_of (storage w) (KEYS_QUIZ_PREFIX @ i) = Some (Json_text (Quiz_obj q)))"
proof -
  have k: "\<not> startsWith (KEYS_QUIZ_PREFIX @ i) KEYS_ARTICLE_PREFIX"
    by (simp add: startsWith_def KEYS_QUIZ_PREFIX_def KEYS_ARTICLE_PREFIX_def)
  show "map_of (storage w) KEYS_ARTICLES = None \<or>
         (\<exists>held. map_of (storage w) KEYS_ARTICLES = Some (Json_text (Article_list held)))"
    using well_shaped_lookup [OF assms, of KEYS_ARTICLES]
    by (cases "map_of (storage w) KEYS_ARTICLES") (auto split: payload.splits json.splits)
  show "map_of (storage w) KEYS_QUIZZES = None \<or>
         (\<exists>held. map_of (storage w) KEYS_QUIZZES = Some (Json_text (Quiz_list held)))"
    using well_shaped_lookup [OF assms, of KEYS_QUIZZES]
    by (cases "map_of (storage w) KEYS_QUIZZES")
       (auto simp add: keys_distinct' split: payload.splits json.splits)
  show "map_of (storage w) (KEYS_ARTICLE_PREFIX @ i) = None \<or>
         (\<exists>a. map_of (storage w) (KEYS_ARTICLE_PREFIX @ i) = Some (Json_text (Article_obj a)))"
    using well_shaped_lookup [OF assms, of "KEYS_ARTICLE_PREFIX @ i"]
    by (cases "map_of (storage w) (KEYS_ARTICLE_PREFIX @ i)")
       (auto simp add: startsWith_def split: payload.splits json.splits)
  show "map_of (storage w) (KEYS_QUIZ_PREFIX @ i) = None \<or>
         (\<exists>q. map_of (storage w) (KEYS_QUIZ_PREFIX @ i) = Some (Json_text (Quiz_obj q)))"
    using well_shaped_lookup [OF assms, of "KEYS_QUIZ_PREFIX @ i"] k
    by (cases "map_of (storage w) (KEYS_QUIZ_PREFIX @ i)")
       (auto simp add: startsWith_def split: payload.splits json.splits)
qed

section \<open>The claims\<close>

text \<open>
  Claim C2 (cache round-trip). Let a list of articles be saved with \<^verbatim>\<open>saveArticlesOffline\<close>
  in a store that rejects none of the writes and reads involved. Then
  \<^verbatim>\<open>getOfflineArticles\<close> returns exactly one list projection per saved article, in the
  order of the input and with the same ids, and \<^verbatim>\<open>getOfflineArticle(id)\<close>, for the id of
  every saved article, returns the full input article stored under that id: the last
  article of the input with that id, which is the article itself when the ids of the input
  are pairwise different. The same holds for \<^verbatim>\<open>saveQuizzesOffline\<close>,
  \<^verbatim>\<open>getOfflineQuizzes\<close> and \<^verbatim>\<open>getOfflineQuiz\<close>.
\<close>

theorem cache_round_trip:
  assumes "saveArticlesOffline arts w = (r, w')"
    and "saveQuizzesOffline qzs w = (r2, w2)"
    and "KEYS_ARTICLES \<notin> set (write_rejected w) \<union> set (read_rejected w)"
    and "\<forall>a\<in>set arts. KEYS_ARTICLE_PREFIX @ article_summary.id' a
           \<notin> set (write_rejected w) \<union> set (read_rejected w)"
    and "KEYS_QUIZZES \<notin> set (write_rejected w) \<union> set (read_rejected w)"
    and "\<forall>q\<in>set qzs. KEYS_QUIZ_PREFIX @ quiz_summary.id' q
           \<notin> set (write_rejected w) \<union> set (read_rejected w)"
  shows "getOfflineArticles w' = (Inr (map article_list_entry arts), w') \<and>
         length (map article_list_entry arts) = length arts \<and>
         map article_summary.id' (map article_list_entry arts) = map article_summary.id' arts \<and>
         (\<forall>a\<in>set arts. getOfflineArticle (article_summary.id' a) w' =
            (Inr (Some (last (filter (\<lambda>b. article_summary.id' b = article_summary.id' a) arts))),
             w')) \<and>
         (distinct (map article_summary.id' arts) \<longrightarrow>
            (\<forall>a\<in>set arts. getOfflineArticle (article_summary.id' a) w' = (Inr (Some a), w'))) \<and>
         getOfflineQuizzes w2 = (Inr (map quiz_list_entry qzs), w2) \<and>
         length (map quiz_list_entry qzs) = length qzs \<and>
         map quiz_summary.id' (map quiz_list_entry qzs) = map quiz_summary.id' qzs \<and>
         (\<forall>q\<in>set qzs. getOfflineQuiz (quiz_summary.id' q) w2 =
            (Inr (Some (last (filter (\<lambda>b. quiz_summary.id' b = quiz_summary.id' q) qzs))), w2)) \<and>
         (distinct (map quiz_summary.id' qzs) \<longrightarrow>
            (\<forall>q\<in>set qzs. getOfflineQuiz (quiz_summary.id' q) w2 = (Inr (Some q), w2)))"
proof -
  have w': "w' = snd (saveArticlesOffline arts w)" and w2: "w2 = snd (saveQuizzesOffline qzs w)"
    using assms(1,2) by simp_all
  have a1: "getOfflineArticles w' = (Inr (map article_list_entry arts), w')"
    unfolding w' by (rule articles_round_trip(1) [OF assms(3,4)])
  have a2: "\<forall>a\<in>set arts. getOfflineArticle (article_summary.id' a) w' =
            (Inr (Some (last (filter (\<lambda>b. article_summary.id' b = article_summary.id' a) arts))),
             w')"
    unfolding w' using articles_round_trip(2) [OF assms(3,4)] by blast
  have a3: "distinct (map article_summary.id' arts) \<longrightarrow>
            (\<forall>a\<in>set arts. getOfflineArticle (article_summary.id' a) w' = (Inr (Some a), w'))"
    using a2 by (simp add: filter_same_key_distinct)
  have q1: "getOfflineQuizzes w2 = (Inr (map quiz_list_entry qzs), w2)"
    unfolding w2 by (rule quizzes_round_trip(1) [OF assms(5,6)])
  have q2: "\<forall>q\<in>set qzs. getOfflineQuiz (quiz_summary.id' q) w2 =
            (Inr (Some (last (filter (\<lambda>b. quiz_summary.id' b = quiz_summary.id' q) qzs))), w2)"
    unfolding w2 using quizzes_round_trip(2) [OF assms(5,6)] by blast
  have q3: "distinct (map quiz_summary.id' qzs) \<longrightarrow>
            (\<forall>q\<in>set qzs. getOfflineQuiz (quiz_summary.id' q) w2 = (Inr (Some q), w2))"
    using q2 by (simp add: filter_same_key_distinct)
  have a4: "map article_summary.id' (map article_list_entry arts) = map article_summary.id' arts"
    by simp
  have q4: "map quiz_summary.id' (map quiz_list_entry qzs) = map quiz_summary.id' qzs"
    by simp
  from a1 a2 a3 a4 q1 q2 q3 q4 show ?thesis by simp
qed

theorem cache_round_trip_witness:
  "getOfflineArticles (snd (saveArticlesOffline [free_article, premium_article] fresh_world)) =
     (Inr [article_list_entry free_article, article_list_entry premium_article],
      snd (saveArticlesOffline [free_article, premium_article] fresh_world)) \<and>
   getOfflineArticle ''a1'' (snd (saveArticlesOffline [free_article, premium_article] fresh_world)) =
     (Inr (Some free_article),
      snd (saveArticlesOffline [free_article, premium_article] fresh_world)) \<and>
   getOfflineArticle ''a2'' (snd (saveArticlesOffline [free_article, premium_article] fresh_world)) =
     (Inr (Some premium_article),
      snd (saveArticlesOffline [free_article, premium_article] fresh_world)) \<and>
   getOfflineQuizzes (snd (saveQuizzesOffline [sample_quiz] fresh_world)) =
     (Inr [quiz_list_entry sample_quiz], snd (saveQuizzesOffline [sample_quiz] fresh_world)) \<and>
   getOfflineQuiz ''q1'' (snd (saveQuizzesOffline [sample_quiz] fresh_world)) =
     (Inr (Some sample_quiz), snd (saveQuizzesOffline [sample_quiz] fresh_world))"
proof -
  have ids: "article_summary.id' free_article = ''a1''"
    "article_summary.id' premium_article = ''a2''" "quiz_summary.id' sample_quiz = ''q1''"
    by (simp_all add: free_article_def premium_article_def sample_quiz_def)
  have none: "write_rejected fresh_world = []" "read_rejected fresh_world = []"
    by (simp_all add: fresh_world_def)
  show ?thesis
    using cache_round_trip [of "[free_article, premium_article]" fresh_world
        "fst (saveArticlesOffline [free_article, premium_article] fresh_world)"
        "snd (saveArticlesOffline [free_article, premium_article] fresh_world)"
        "[sample_quiz]"
        "fst (saveQuizzesOffline [sample_quiz] fresh_world)"
        "snd (saveQuizzesOffline [sample_quiz] fresh_world)"]
    by (simp add: ids none)
qed

text \<open>
  Claim C6 (staleness threshold). \<^verbatim>\<open>isSyncNeeded\<close> returns true when the store holds no
  sync clock record, in particular after \<^verbatim>\<open>clearOfflineData\<close> has removed the namespaced
  keys; it returns false after a save (\<^verbatim>\<open>saveArticlesOffline\<close> or \<^verbatim>\<open>saveQuizzesOffline\<close>)
  whose writes all succeeded, at the instant of the save and as long as no more than 24
  hours have passed since; and it returns true whenever the stored timestamp lies strictly
  more than 24 hours before the current time.
\<close>

theorem isSyncNeeded_staleness:
  "(map_of (storage w) KEYS_LAST_SYNC = None \<longrightarrow> fst (isSyncNeeded w) = Inr True) \<and>
   ((\<forall>key\<in>set (map fst (storage w)).
        startsWith key ''econquiz_'' \<longrightarrow> key \<notin> set (write_rejected w)) \<longrightarrow>
      fst (isSyncNeeded (snd (clearOfflineData w))) = Inr True) \<and>
   (KEYS_ARTICLES \<notin> set (write_rejected w) \<and>
    (\<forall>a\<in>set arts. KEYS_ARTICLE_PREFIX @ article_summary.id' a \<notin> set (write_rejected w)) \<and>
    KEYS_LAST_SYNC \<notin> set (write_rejected w) \<union> set (read_rejected w) \<longrightarrow>
      (\<forall>t. t - clock w \<le> 24 * (1000 * 60 * 60) \<longrightarrow>
         fst (isSyncNeeded ((snd (saveArticlesOffline arts w))\<lparr>clock := t\<rparr>)) = Inr False)) \<and>
   (KEYS_QUIZZES \<notin> set (write_rejected w) \<and>
    (\<forall>q\<in>set qzs. KEYS_QUIZ_PREFIX @ quiz_summary.id' q \<notin> set (write_rejected w)) \<and>
    KEYS_LAST_SYNC \<notin> set (write_rejected w) \<union> set (read_rejected w) \<longrightarrow>
      (\<forall>t. t - clock w \<le> 24 * (1000 * 60 * 60) \<longrightarrow>
         fst (isSyncNeeded ((snd (saveQuizzesOffline qzs w))\<lparr>clock := t\<rparr>)) = Inr False)) \<and>
   (map_of (storage w) KEYS_LAST_SYNC = Some (Iso_text t0) \<and>
    24 * (1000 * 60 * 60) < clock w - t0 \<longrightarrow>
      fst (isSyncNeeded w) = Inr True)"
proof -
  have 1: "map_of (storage w) KEYS_LAST_SYNC = None \<longrightarrow> fst (isSyncNeeded w) = Inr True"
    by (simp add: isSyncNeeded_run)
  have 2: "(\<forall>key\<in>set (map fst (storage w)).
        startsWith key ''econquiz_'' \<longrightarrow> key \<notin> set (write_rejected w)) \<longrightarrow>
      fst (isSyncNeeded (snd (clearOfflineData w))) = Inr True"
    using clearOfflineData_removes_sync [of w] by (simp add: isSyncNeeded_run)
  have 3: "KEYS_ARTICLES \<notin> set (write_rejected w) \<and>
    (\<forall>a\<in>set arts. KEYS_ARTICLE_PREFIX @ article_summary.id' a \<notin> set (write_rejected w)) \<and>
    KEYS_LAST_SYNC \<notin> set (write_rejected w) \<union> set (read_rejected w) \<longrightarrow>
      (\<forall>t. t - clock w \<le> 24 * (1000 * 60 * 60) \<longrightarrow>
         fst (isSyncNeeded ((snd (saveArticlesOffline arts w))\<lparr>clock := t\<rparr>)) = Inr False)"
    by (simp add: isSyncNeeded_run saveArticlesOffline_frame saveArticlesOffline_lookup_sync)
  have 4: "KEYS_QUIZZES \<notin> set (write_rejected w) \<and>
    (\<forall>q\<in>set qzs. KEYS_QUIZ_PREFIX @ quiz_summary.id' q \<notin> set (write_rejected w)) \<and>
    KEYS_LAST_SYNC \<notin> set (write_rejected w) \<union> set (read_rejected w) \<longrightarrow>
      (\<forall>t. t - clock w \<le> 24 * (1000 * 60 * 60) \<longrightarrow>
         fst (isSyncNeeded ((snd (saveQuizzesOffline qzs w))\<lparr>clock := t\<rparr>)) = Inr False)"
    by (simp add: isSyncNeeded_run saveQuizzesOffline_frame saveQuizzesOffline_lookup_sync)
  have 5: "map_of (storage w) KEYS_LAST_SYNC = Some (Iso_text t0) \<and>
    24 * (1000 * 60 * 60) < clock w - t0 \<longrightarrow> fst (isSyncNeeded w) = Inr True"
    by (simp add: isSyncNeeded_run)
  from 1 2 3 4 5 show ?thesis by blast
qed

theorem isSyncNeeded_staleness_witness:
  "fst (isSyncNeeded fresh_world) = Inr True \<and>
   fst (isSyncNeeded (snd (clearOfflineData
          (snd (saveArticlesOffline [free_article] fresh_world))))) = Inr True \<and>
   fst (isSyncNeeded ((snd (saveArticlesOffline [free_article] fresh_world))
          \<lparr>clock := 1700000000000\<rparr>)) = Inr False \<and>
   fst (isSyncNeeded ((snd (saveQuizzesOffline [sample_quiz] fresh_world))
          \<lparr>clock := 1700000000000 + 86400000\<rparr>)) = Inr False \<and>
   fst (isSyncNeeded ((snd (saveArticlesOffline [free_article] fresh_world))
          \<lparr>clock := 1700000000000 + 86400001\<rparr>)) = Inr True"
  using isSyncNeeded_staleness [of fresh_world "[free_article]" "[sample_quiz]" 0]
    isSyncNeeded_staleness [of "snd (saveArticlesOffline [free_article] fresh_world)" "[]" "[]" 0]
    isSyncNeeded_staleness
      [of "(snd (saveArticlesOffline [free_article] fresh_world))\<lparr>clock := 1700000000000 + 86400001\<rparr>"
          "[]" "[]" 1700000000000]
  by (simp add: saveArticlesOffline_frame saveArticlesOffline_lookup_sync)

text \<open>
  Claim C4 (best-effort writes of \<^verbatim>\<open>saveList\<close>), as the code has it. A call of
  \<^verbatim>\<open>saveArticlesOffline\<close> or \<^verbatim>\<open>saveQuizzesOffline\<close> never raises. When the write of the
  list record is rejected, nothing else is written. Otherwise the detail write of every
  entity is attempted, whether or not another one failed, and every detail record whose
  write the store accepts is stored. When the list write or a detail write is rejected,
  one failure is logged and the sync clock is left as it was: it is stamped only when the
  list write and all detail writes succeeded.
\<close>

theorem saveList_best_effort:
  assumes "saveArticlesOffline arts w = (r, w')"
    and "saveQuizzesOffline qzs w = (r2, w2)"
  shows "(r = Inr () \<and>
    (KEYS_ARTICLES \<in> set (write_rejected w) \<longrightarrow>
       calls w' = calls w @ [Storage_setItem KEYS_ARTICLES] \<and> storage w' = storage w) \<and>
    (KEYS_ARTICLES \<notin> set (write_rejected w) \<longrightarrow>
       calls w' = calls w @ Storage_setItem KEYS_ARTICLES #
         map (\<lambda>a. Storage_setItem (KEYS_ARTICLE_PREFIX @ article_summary.id' a)) arts @
         (if \<forall>a\<in>set arts. KEYS_ARTICLE_PREFIX @ article_summary.id' a \<notin> set (write_rejected w)
          then [Storage_setItem KEYS_LAST_SYNC] else []) \<and>
       (\<forall>a\<in>set arts. KEYS_ARTICLE_PREFIX @ article_summary.id' a \<notin> set (write_rejected w) \<longrightarrow>
          map_of (storage w') (KEYS_ARTICLE_PREFIX @ article_summary.id' a) =
            Some (Json_text (Article_obj
              (last (filter (\<lambda>b. article_summary.id' b = article_summary.id' a) arts)))))) \<and>
    (KEYS_ARTICLES \<in> set (write_rejected w) \<or>
     (\<exists>a\<in>set arts. KEYS_ARTICLE_PREFIX @ article_summary.id' a \<in> set (write_rejected w)) \<longrightarrow>
       map_of (storage w') KEYS_LAST_SYNC = map_of (storage w) KEYS_LAST_SYNC \<and>
       (\<exists>k\<in>set (write_rejected w). console w' = console w @
          [Console_error ''Error saving articles offline:'' (Storage_error k)])) \<and>
    (KEYS_ARTICLES \<notin> set (write_rejected w) \<and>
     (\<forall>a\<in>set arts. KEYS_ARTICLE_PREFIX @ article_summary.id' a \<notin> set (write_rejected w)) \<and>
     KEYS_LAST_SYNC \<notin> set (write_rejected w) \<longrightarrow>
       map_of (storage w') KEYS_LAST_SYNC = Some (Iso_text (clock w)) \<and> console w' = console w))
   \<and>
   (r2 = Inr () \<and>
    (KEYS_QUIZZES \<in> set (write_rejected w) \<longrightarrow>
       calls w2 = calls w @ [Storage_setItem KEYS_QUIZZES] \<and> storage w2 = storage w) \<and>
    (KEYS_QUIZZES \<notin> set (write_rejected w) \<longrightarrow>
       calls w2 = calls w @ Storage_setItem KEYS_QUIZZES #
         map (\<lambda>q. Storage_setItem (KEYS_QUIZ_PREFIX @ quiz_summary.id' q)) qzs @
         (if \<forall>q\<in>set qzs. KEYS_QUIZ_PREFIX @ quiz_summary.id' q \<notin> set (write_rejected w)
          then [Storage_setItem KEYS_LAST_SYNC] else []) \<and>
       (\<forall>q\<in>set qzs. KEYS_QUIZ_PREFIX @ quiz_summary.id' q \<notin> set (write_rejected w) \<longrightarrow>
          map_of (storage w2) (KEYS_QUIZ_PREFIX @ quiz_summary.id' q) =
            Some (Json_text (Quiz_obj
              (last (filter (\<lambda>b. quiz_summary.id' b = quiz_summary.id' q) qzs)))))) \<and>
    (KEYS_QUIZZES \<in> set (write_rejected w) \<or>
     (\<exists>q\<in>set qzs. KEYS_QUIZ_PREFIX @ quiz_summary.id' q \<in> set (write_rejected w)) \<longrightarrow>
       map_of (storage w2) KEYS_LAST_SYNC = map_of (storage w) KEYS_LAST_SYNC \<and>
       (\<exists>k\<in>set (write_rejected w). console w2 = console w @
          [Console_error ''Error saving quizzes offline:'' (Storage_error k)])) \<and>
    (KEYS_QUIZZES \<notin> set (write_rejected w) \<and>
     (\<forall>q\<in>set qzs. KEYS_QUIZ_PREFIX @ quiz_summary.id' q \<notin> set (write_rejected w)) \<and>
     KEYS_LAST_SYNC \<notin> set (write_rejected w) \<longrightarrow>
       map_of (storage w2) KEYS_LAST_SYNC = Some (Iso_text (clock w)) \<and> console w2 = console w))"
  by (rule conjI [OF articles_best_effort [OF assms(1)] quizzes_best_effort [OF assms(2)]])

theorem saveList_best_effort_witness:
  "fst (saveArticlesOffline [free_article, premium_article] detail_rejecting_world) = Inr () \<and>
   calls (snd (saveArticlesOffline [free_article, premium_article] detail_rejecting_world)) =
     [Storage_setItem KEYS_ARTICLES, Storage_setItem (KEYS_ARTICLE_PREFIX @ ''a1''),
      Storage_setItem (KEYS_ARTICLE_PREFIX @ ''a2'')] \<and>
   map_of (storage (snd (saveArticlesOffline [free_article, premium_article]
       detail_rejecting_world))) (KEYS_ARTICLE_PREFIX @ ''a2'') =
     Some (Json_text (Article_obj premium_article)) \<and>
   map_of (storage (snd (saveArticlesOffline [free_article, premium_article]
       detail_rejecting_world))) KEYS_LAST_SYNC = None \<and>
   console (snd (saveArticlesOffline [free_article, premium_article] detail_rejecting_world)) =
     [Console_error ''Error saving articles offline:''
        (Storage_error (KEYS_ARTICLE_PREFIX @ ''a1''))] \<and>
   map_of (storage (snd (saveQuizzesOffline [sample_quiz] detail_rejecting_world)))
       KEYS_LAST_SYNC = Some (Iso_text 1700000000000)"
  using saveList_best_effort [of "[free_article, premium_article]" detail_rejecting_world
      "fst (saveArticlesOffline [free_article, premium_article] detail_rejecting_world)"
      "snd (saveArticlesOffline [free_article, premium_article] detail_rejecting_world)"
      "[sample_quiz]"
      "fst (saveQuizzesOffline [sample_quiz] detail_rejecting_world)"
      "snd (saveQuizzesOffline [sample_quiz] detail_rejecting_world)"]
  by (simp add: detail_rejecting_world_def)

text \<open>
  The claim as stated fails: when the store rejects the detail write of one of two
  articles, the call ends without a write of the sync clock.
\<close>

theorem saveList_stamp_counterexample:
  "map_of (storage (snd (saveArticlesOffline [free_article, premium_article]
       detail_rejecting_world))) KEYS_LAST_SYNC = None \<and>
   Storage_setItem KEYS_LAST_SYNC
     \<notin> set (calls (snd (saveArticlesOffline [free_article, premium_article]
           detail_rejecting_world)))"
  by (simp add: saveArticlesOffline_lookup_sync saveArticlesOffline_calls
      detail_rejecting_world_def)

text \<open>
  Claim C5 (quiz-by-article lookup), as the code has it. Let the cache hold a quiz list.
  \<^verbatim>\<open>getOfflineQuizByArticleId(articleId)\<close> returns null when no list entry has that article
  reference. Otherwise it looks at the first such entry only: it returns null when that
  entry's id is the empty string, null when no detail record is stored for that id, and
  otherwise the stored detail record, whole (with its questions). In no state of the
  store, whatever it holds and whatever reads it rejects, does the call raise an error.
\<close>

theorem getOfflineQuizByArticleId_lookup:
  assumes "KEYS_QUIZZES \<notin> set (read_rejected w)"
    and "map_of (storage w) KEYS_QUIZZES = Some (Json_text (Quiz_list qs))"
  shows "((\<forall>q\<in>set qs. quiz_summary.article_id q \<noteq> a) \<longrightarrow>
            getOfflineQuizByArticleId a w = (Inr None, w)) \<and>
         (qs = pre @ q # post \<and> (\<forall>p\<in>set pre. quiz_summary.article_id p \<noteq> a) \<and>
          quiz_summary.article_id q = a \<longrightarrow>
            (quiz_summary.id' q = [] \<longrightarrow> getOfflineQuizByArticleId a w = (Inr None, w)) \<and>
            (quiz_summary.id' q \<noteq> [] \<and>
             KEYS_QUIZ_PREFIX @ quiz_summary.id' q \<notin> set (read_rejected w) \<longrightarrow>
               (map_of (storage w) (KEYS_QUIZ_PREFIX @ quiz_summary.id' q) = None \<longrightarrow>
                  getOfflineQuizByArticleId a w = (Inr None, w)) \<and>
               (\<forall>d. map_of (storage w) (KEYS_QUIZ_PREFIX @ quiz_summary.id' q) =
                       Some (Json_text (Quiz_obj d)) \<longrightarrow>
                  getOfflineQuizByArticleId a w = (Inr (Some d), w)))) \<and>
         (\<exists>r w1. getOfflineQuizByArticleId a w0 = (Inr r, w1))"
proof -
  have 1: "(\<forall>q\<in>set qs. quiz_summary.article_id q \<noteq> a) \<longrightarrow>
            getOfflineQuizByArticleId a w = (Inr None, w)"
    using getOfflineQuizByArticleId_not_found [OF assms, of a]
    by (simp add: find_None_iff)
  have 2: "(quiz_summary.id' q = [] \<longrightarrow> getOfflineQuizByArticleId a w = (Inr None, w)) \<and>
              (quiz_summary.id' q \<noteq> [] \<and>
               KEYS_QUIZ_PREFIX @ quiz_summary.id' q \<notin> set (read_rejected w) \<longrightarrow>
                 (map_of (storage w) (KEYS_QUIZ_PREFIX @ quiz_summary.id' q) = None \<longrightarrow>
                    getOfflineQuizByArticleId a w = (Inr None, w)) \<and>
                 (\<forall>d. map_of (storage w) (KEYS_QUIZ_PREFIX @ quiz_summary.id' q) =
                         Some (Json_text (Quiz_obj d)) \<longrightarrow>
                    getOfflineQuizByArticleId a w = (Inr (Some d), w)))"
    if "qs = pre @ q # post" "\<forall>p\<in>set pre. quiz_summary.article_id p \<noteq> a"
      "quiz_summary.article_id q = a"
  proof -
    have "find (\<lambda>q. quiz_summary.article_id q = a) qs = Some q"
      using that by (simp add: find_first)
    from getOfflineQuizByArticleId_found [OF assms this] show ?thesis
      by (simp add: getOfflineQuiz_run)
  qed
  have 3: "\<exists>r w1. getOfflineQuizByArticleId a w0 = (Inr r, w1)"
    by (rule getOfflineQuizByArticleId_never_throws)
  from 1 2 3 show ?thesis by blast
qed

theorem getOfflineQuizByArticleId_lookup_witness:
  "getOfflineQuizByArticleId ''A1'' (snd (saveQuizzesOffline [sample_quiz] fresh_world)) =
     (Inr (Some sample_quiz), snd (saveQuizzesOffline [sample_quiz] fresh_world)) \<and>
   getOfflineQuizByArticleId ''A2'' (snd (saveQuizzesOffline [sample_quiz] fresh_world)) =
     (Inr None, snd (saveQuizzesOffline [sample_quiz] fresh_world))"
proof -
  let ?w = "snd (saveQuizzesOffline [sample_quiz] fresh_world)"
  have r: "KEYS_QUIZZES \<notin> set (read_rejected ?w)"
    by (simp add: saveQuizzesOffline_frame)
  have l: "map_of (storage ?w) KEYS_QUIZZES = Some (Json_text (Quiz_list [quiz_list_entry sample_quiz]))"
    by (simp add: saveQuizzesOffline_lookup_list)
  have d: "map_of (storage ?w) (KEYS_QUIZ_PREFIX @ ''q1'') = Some (Json_text (Quiz_obj sample_quiz))"
    by (simp add: saveQuizzesOffline_lookup_detail)
  have "getOfflineQuizByArticleId ''A1'' ?w = (Inr (Some sample_quiz), ?w)"
    using getOfflineQuizByArticleId_lookup
      [OF r l, of "''A1''" "[]" "quiz_list_entry sample_quiz" "[]"] d
    by (simp add: saveQuizzesOffline_frame)
  moreover have "getOfflineQuizByArticleId ''A2'' ?w = (Inr None, ?w)"
    using getOfflineQuizByArticleId_lookup [OF r l, of "''A2''"] by simp
  ultimately show ?thesis by simp
qed

text \<open>
  The claim as stated fails for an entry whose id is the empty string: after
  \<^verbatim>\<open>saveQuizzesOffline\<close> of such a quiz, its detail record is in the cache and the list
  entry matches the article reference, yet the lookup by article returns null.
\<close>

theorem getOfflineQuizByArticleId_counterexample:
  "fst (getOfflineQuizzes (snd (saveQuizzesOffline [unnamed_quiz] fresh_world))) =
     Inr [quiz_list_entry unnamed_quiz] \<and>
   quiz_summary.article_id (quiz_list_entry unnamed_quiz) = ''A1'' \<and>
   fst (getOfflineQuiz (quiz_summary.id' (quiz_list_entry unnamed_quiz))
          (snd (saveQuizzesOffline [unnamed_quiz] fresh_world))) = Inr (Some unnamed_quiz) \<and>
   fst (getOfflineQuizByArticleId ''A1'' (snd (saveQuizzesOffline [unnamed_quiz] fresh_world))) =
     Inr None"
proof -
  let ?w = "snd (saveQuizzesOffline [unnamed_quiz] fresh_world)"
  have i: "quiz_summary.id' unnamed_quiz = []" "quiz_summary.article_id unnamed_quiz = ''A1''"
    by (simp_all add: unnamed_quiz_def)
  have r: "KEYS_QUIZZES \<notin> set (read_rejected ?w)"
    by (simp add: saveQuizzesOffline_frame)
  have l: "map_of (storage ?w) KEYS_QUIZZES = Some (Json_text (Quiz_list [quiz_list_entry unnamed_quiz]))"
    by (simp add: saveQuizzesOffline_lookup_list)
  have d: "map_of (storage ?w) (KEYS_QUIZ_PREFIX @ []) = Some (Json_text (Quiz_obj unnamed_quiz))"
    using saveQuizzesOffline_lookup_detail [of fresh_world "[unnamed_quiz]" "[]"]
    by (simp add: i)
  have 1: "fst (getOfflineQuizzes ?w) = Inr [quiz_list_entry unnamed_quiz]"
    using r l by (simp add: getOfflineQuizzes_run)
  have 2: "fst (getOfflineQuiz (quiz_summary.id' (quiz_list_entry unnamed_quiz)) ?w) =
             Inr (Some unnamed_quiz)"
    using d by (simp add: getOfflineQuiz_run i saveQuizzesOffline_frame)
  have 3: "fst (getOfflineQuizByArticleId ''A1'' ?w) = Inr None"
    using getOfflineQuizByArticleId_found [OF r l, of "''A1''" "quiz_list_entry unnamed_quiz"]
    by (simp add: i)
  from 1 2 3 show ?thesis by (simp add: i)
qed

text \<open>
  Claim C7 (offline progress no-op). When the device is not connected,
  \<^verbatim>\<open>updateArticleProgress\<close> returns without an error and leaves the state as it was but for
  one line of \<^verbatim>\<open>console.log\<close>: the key-value store is unchanged, nothing is written to
  it, no request goes to the backend, and the backend is unchanged.
\<close>

theorem updateArticleProgress_offline:
  assumes "isConnected w \<noteq> Some True"
  shows "updateArticleProgress userId articleId done w =
           (Inr (), w\<lparr>console := console w @
              [Console_log ''Offline: Article progress update queued for later'']\<rparr>) \<and>
         storage (snd (updateArticleProgress userId articleId done w)) = storage w \<and>
         calls (snd (updateArticleProgress userId articleId done w)) = calls w \<and>
         backend (snd (updateArticleProgress userId articleId done w)) = backend w"
  using assms
  by (simp add: updateArticleProgress_def try_catch_def await_def NetInfo_fetch_def
      console_log_def)

theorem updateArticleProgress_offline_witness:
  "isConnected offline_world \<noteq> Some True \<and>
   updateArticleProgress ''u1'' ''a1'' True offline_world =
     (Inr (), offline_world\<lparr>console :=
        [Console_log ''Offline: Article progress update queued for later'']\<rparr>) \<and>
   storage (snd (updateArticleProgress ''u1'' ''a1'' True offline_world)) = [] \<and>
   calls (snd (updateArticleProgress ''u1'' ''a1'' True offline_world)) = []"
  using updateArticleProgress_offline [of offline_world "''u1''" "''a1''" True]
  by simp

text \<open>
  Claim C8 (offline quiz attempt). When the device is not connected, \<^verbatim>\<open>saveQuizAttempt\<close>
  returns a placeholder attempt built locally: its id is \<^verbatim>\<open>'offline-'\<close> followed by the
  digits of the current time, and it carries the given user id, quiz id and score. The
  key-value store is unchanged, nothing is written to it, no request goes to the backend,
  and the backend is unchanged; the only effect is one line of \<^verbatim>\<open>console.log\<close>.
\<close>

theorem saveQuizAttempt_offline:
  assumes "isConnected w \<noteq> Some True"
  shows "saveQuizAttempt userId quizId points answers w =
           (Inr \<lparr> quiz_attempt.id' = ''offline-'' @ Number_toString (clock w),
                  quiz_attempt.user_id = userId,
                  quiz_attempt.quiz_id = quizId,
                  quiz_attempt.score = points,
                  quiz_attempt.completed_at = clock w,
                  quiz_attempt.created_at = clock w,
                  quiz_attempt.quizzes = None \<rparr>,
            w\<lparr>console := console w @
              [Console_log ''Offline: Quiz attempt saved locally for later sync'']\<rparr>) \<and>
         storage (snd (saveQuizAttempt userId quizId points answers w)) = storage w \<and>
         calls (snd (saveQuizAttempt userId quizId points answers w)) = calls w \<and>
         backend (snd (saveQuizAttempt userId quizId points answers w)) = backend w"
  using assms
  by (simp add: saveQuizAttempt_def try_catch_def await_def NetInfo_fetch_def
      console_log_def Date_now_def)

theorem saveQuizAttempt_offline_witness:
  "isConnected offline_world \<noteq> Some True \<and>
   saveQuizAttempt ''u1'' ''q1'' 80 [] offline_world =
     (Inr \<lparr> quiz_attempt.id' = ''offline-1700000000000'',
            quiz_attempt.user_id = ''u1'',
            quiz_attempt.quiz_id = ''q1'',
            quiz_attempt.score = 80,
            quiz_attempt.completed_at = 1700000000000,
            quiz_attempt.created_at = 1700000000000,
            quiz_attempt.quizzes = None \<rparr>,
      offline_world\<lparr>console :=
        [Console_log ''Offline: Quiz attempt saved locally for later sync'']\<rparr>) \<and>
   storage (snd (saveQuizAttempt ''u1'' ''q1'' 80 [] offline_world)) = [] \<and>
   calls (snd (saveQuizAttempt ''u1'' ''q1'' 80 [] offline_world)) = []"
proof -
  have "Number_toString 1700000000000 = ''1700000000000''"
    by (simp add: Number_toString_def)
  then show ?thesis
    using saveQuizAttempt_offline [of offline_world "''u1''" "''q1''" 80 "[]"]
    by simp
qed

text \<open>
  Claim C1 (fallback on remote failure), as the code has it. When the device is connected,
  the request for the articles is answered with an error and the cache holds a list of N
  entries, \<^verbatim>\<open>fetchArticles\<close> does not raise the error (it is logged): it returns the
  cached entries that pass the premium filter, which are all N entries when the caller
  is a premium user or no cached entry is flagged premium.
\<close>

theorem fetchArticles_fallback:
  assumes "isConnected w = Some True"
    and "map_of (faults (backend w)) ''articles'' = Some e"
    and "KEYS_ARTICLES \<notin> set (read_rejected w)"
    and "map_of (storage w) KEYS_ARTICLES = Some (Json_text (Article_list cached))"
  shows "fetchArticles isPremiumUser w =
           (Inr (Cached_entries (filter (\<lambda>article.
              isPremiumUser \<or> \<not> article_summary.is_premium article) cached)),
            w\<lparr>calls := calls w @ [Remote_request ''articles''],
              console := console w @ [Console_error ''Error in fetchArticles:'' e]\<rparr>) \<and>
         (isPremiumUser \<or> (\<forall>a\<in>set cached. \<not> article_summary.is_premium a) \<longrightarrow>
            fst (fetchArticles isPremiumUser w) = Inr (Cached_entries cached))"
proof -
  note run = fetchArticles_fallback_run [OF assms, of isPremiumUser]
  have "isPremiumUser \<or> (\<forall>a\<in>set cached. \<not> article_summary.is_premium a) \<Longrightarrow>
        filter (\<lambda>article. isPremiumUser \<or> \<not> article_summary.is_premium article) cached = cached"
    by (auto simp add: filter_id_conv)
  with run show ?thesis by simp
qed

theorem fetchArticles_fallback_witness:
  "fst (fetchArticles True failing_remote_world) =
     Inr (Cached_entries [article_list_entry premium_article]) \<and>
   fst (fetchArticles False failing_remote_world) = Inr (Cached_entries [])"
  using fetchArticles_fallback [OF failing_remote_world_fields, of True]
    fetchArticles_fallback [OF failing_remote_world_fields, of False]
  by simp

text \<open>
  The claim as stated fails: the cache holds one saved article, flagged premium, the
  request fails, and \<^verbatim>\<open>fetchArticles(false)\<close> returns no entry.
\<close>

theorem fetchArticles_fallback_counterexample:
  "fst (getOfflineArticles failing_remote_world) = Inr [article_list_entry premium_article] \<and>
   fst (fetchArticles False failing_remote_world) = Inr (Cached_entries []) \<and>
   Cached_entries [] \<noteq> Cached_entries [article_list_entry premium_article]"
proof -
  have "getOfflineArticles failing_remote_world =
          (Inr [article_list_entry premium_article], failing_remote_world)"
    using failing_remote_world_fields(3,4) by (rule getOfflineArticles_cached)
  moreover have "fetchArticles False failing_remote_world =
      (Inr (Cached_entries []),
       failing_remote_world\<lparr>calls := calls failing_remote_world @ [Remote_request ''articles''],
         console := console failing_remote_world @
           [Console_error ''Error in fetchArticles:'' (Postgrest_error ''500'')]\<rparr>)"
    using failing_remote_world_fields
    by (simp add: fetchArticles_remote_failure getOfflineArticles_cached)
  ultimately show ?thesis by simp
qed

text \<open>
  Claim C3 (premium filtering). On the fallback path (the device is not connected, or the
  request for the articles is answered with an error) with a list of entries in the cache,
  \<^verbatim>\<open>fetchArticles(false)\<close> returns exactly the cached entries that are not flagged premium
  and \<^verbatim>\<open>fetchArticles(true)\<close> returns all cached entries. For a non-premium caller: on
  the remote path \<^verbatim>\<open>fetchArticles(false)\<close> returns rows of the backend, none of them
  flagged premium; on the fallback path, when the list record is absent or a list of
  article entries, it returns cached entries, none of them flagged premium; and in every
  state, whatever \<^verbatim>\<open>fetchArticles(false)\<close> returns holds nothing flagged premium.
\<close>

theorem premium_filtering:
  "(KEYS_ARTICLES \<notin> set (read_rejected w) \<and>
    map_of (storage w) KEYS_ARTICLES = Some (Json_text (Article_list cached)) \<and>
    (isConnected w \<noteq> Some True \<or> map_of (faults (backend w)) ''articles'' \<noteq> None) \<longrightarrow>
      fst (fetchArticles False w) =
        Inr (Cached_entries (filter (\<lambda>a. \<not> article_summary.is_premium a) cached)) \<and>
      fst (fetchArticles True w) = Inr (Cached_entries cached)) \<and>
   (isConnected w = Some True \<and> map_of (faults (backend w)) ''articles'' = None \<longrightarrow>
      (\<exists>rows w'. fetchArticles False w = (Inr (Remote_rows rows), w') \<and>
         (\<forall>a\<in>set rows. \<not> article_summary.is_premium a))) \<and>
   ((isConnected w \<noteq> Some True \<or> map_of (faults (backend w)) ''articles'' \<noteq> None) \<and>
    (map_of (storage w) KEYS_ARTICLES = None \<or>
     (\<exists>held. map_of (storage w) KEYS_ARTICLES = Some (Json_text (Article_list held)))) \<longrightarrow>
      (\<exists>xs w'. fetchArticles False w = (Inr (Cached_entries xs), w') \<and>
         (\<forall>a\<in>set xs. \<not> article_summary.is_premium a))) \<and>
   (\<forall>r w'. fetchArticles False w = (Inr r, w') \<longrightarrow>
      (case r of
         Remote_rows xs \<Rightarrow> \<forall>a\<in>set xs. \<not> article_summary.is_premium a
       | Cached_entries xs \<Rightarrow> \<forall>a\<in>set xs. \<not> article_summary.is_premium a))"
proof -
  have 1: "fst (fetchArticles False w) =
        Inr (Cached_entries (filter (\<lambda>a. \<not> article_summary.is_premium a) cached)) \<and>
      fst (fetchArticles True w) = Inr (Cached_entries cached)"
    if r: "KEYS_ARTICLES \<notin> set (read_rejected w)"
      and l: "map_of (storage w) KEYS_ARTICLES = Some (Json_text (Article_list cached))"
      and p: "isConnected w \<noteq> Some True \<or> map_of (faults (backend w)) ''articles'' \<noteq> None"
  proof (cases "isConnected w = Some True")
    case False
    have "getOfflineArticles w = (Inr cached, w)"
      using r l by (rule getOfflineArticles_cached)
    from fetchArticles_offline [OF False this, of False]
         fetchArticles_offline [OF False this, of True]
    show ?thesis by simp
  next
    case True
    with p obtain e where "map_of (faults (backend w)) ''articles'' = Some e"
      by auto
    from fetchArticles_fallback_run [OF True this r l, of False]
         fetchArticles_fallback_run [OF True this r l, of True]
    show ?thesis by simp
  qed
  have 2: "isConnected w = Some True \<and> map_of (faults (backend w)) ''articles'' = None \<longrightarrow>
      (\<exists>rows w'. fetchArticles False w = (Inr (Remote_rows rows), w') \<and>
         (\<forall>a\<in>set rows. \<not> article_summary.is_premium a))"
    using fetchArticles_free_remote [of w] by blast
  have 3: "(isConnected w \<noteq> Some True \<or> map_of (faults (backend w)) ''articles'' \<noteq> None) \<and>
    (map_of (storage w) KEYS_ARTICLES = None \<or>
     (\<exists>held. map_of (storage w) KEYS_ARTICLES = Some (Json_text (Article_list held)))) \<longrightarrow>
      (\<exists>xs w'. fetchArticles False w = (Inr (Cached_entries xs), w') \<and>
         (\<forall>a\<in>set xs. \<not> article_summary.is_premium a))"
    using fetchArticles_free_fallback [of w] by blast
  have 4: "\<forall>r w'. fetchArticles False w = (Inr r, w') \<longrightarrow>
      (case r of
         Remote_rows xs \<Rightarrow> \<forall>a\<in>set xs. \<not> article_summary.is_premium a
       | Cached_entries xs \<Rightarrow> \<forall>a\<in>set xs. \<not> article_summary.is_premium a)"
    using fetchArticles_free_returned [of w] by blast
  from 1 2 3 4 show ?thesis by blast
qed

theorem premium_filtering_witness:
  "fst (fetchArticles False (stocked_world\<lparr>isConnected := Some False\<rparr>)) =
     Inr (Cached_entries [article_list_entry free_article]) \<and>
   fst (fetchArticles True (stocked_world\<lparr>isConnected := Some False\<rparr>)) =
     Inr (Cached_entries [article_list_entry free_article, article_list_entry premium_article])"
  using premium_filtering [of "stocked_world\<lparr>isConnected := Some False\<rparr>"
      "[article_list_entry free_article, article_list_entry premium_article]"]
  by (simp add: stocked_world_fields)

text \<open>
  Claim C10 (the online fetch of a non-premium caller caches the filtered rows). When
  \<^verbatim>\<open>fetchArticles(false)\<close> runs online, the request succeeds and the store accepts the
  write of the list record, it returns the rows of the backend that are not flagged
  premium, and the cached list record then holds the list projections of exactly these
  rows, whatever the cache held before: no cached entry is flagged premium, and a later
  \<^verbatim>\<open>fetchArticles(true)\<close> on the fallback path returns these entries only.
\<close>

theorem fetchArticles_caches_filtered:
  assumes "isConnected w = Some True"
    and "map_of (faults (backend w)) ''articles'' = None"
    and "KEYS_ARTICLES \<notin> set (write_rejected w) \<union> set (read_rejected w)"
    and "fetchArticles False w = (r, w')"
    and "c \<noteq> Some True"
  shows "\<exists>rows. r = Inr (Remote_rows rows) \<and>
           set rows = {a \<in> set (articles_rows (backend w)). \<not> article_summary.is_premium a} \<and>
           getOfflineArticles w' = (Inr (map article_list_entry rows), w') \<and>
           (\<forall>entry\<in>set (map article_list_entry rows). \<not> article_summary.is_premium entry) \<and>
           fetchArticles True (w'\<lparr>isConnected := c\<rparr>) =
             (Inr (Cached_entries (map article_list_entry rows)), w'\<lparr>isConnected := c\<rparr>)"
proof -
  let ?w1 = "w\<lparr>calls := calls w @ [Remote_request ''articles'']\<rparr>"
  obtain rows where rows: "select_articles (\<not> False) (backend w) = Inr rows"
    using select_articles_answers by blast
  have free: "set rows = {a \<in> set (articles_rows (backend w)). \<not> article_summary.is_premium a}"
    using select_articles_free [of "backend w" rows] rows by simp
  from fetchArticles_remote_success [OF assms(1,2) rows] assms(4)
  have r: "r = Inr (Remote_rows rows)" and w': "w' = snd (saveArticlesOffline rows ?w1)"
    by simp_all
  have acc: "KEYS_ARTICLES \<notin> set (write_rejected ?w1) \<union> set (read_rejected ?w1)"
    using assms(3) by simp
  have relist: "getOfflineArticles w' = (Inr (map article_list_entry rows), w')"
    unfolding w' by (rule saved_articles_read_back [OF acc])
  have stored: "map_of (storage w') KEYS_ARTICLES =
      Some (Json_text (Article_list (map article_list_entry rows)))"
    unfolding w' using acc by (simp add: saveArticlesOffline_lookup_list)
  have readable: "KEYS_ARTICLES \<notin> set (read_rejected w')"
    unfolding w' using acc by (simp add: saveArticlesOffline_frame)
  have "getOfflineArticles (w'\<lparr>isConnected := c\<rparr>) =
          (Inr (map article_list_entry rows), w'\<lparr>isConnected := c\<rparr>)"
    using stored readable by (simp add: getOfflineArticles_cached)
  from fetchArticles_offline [OF _ this, of True] assms(5)
  have later: "fetchArticles True (w'\<lparr>isConnected := c\<rparr>) =
             (Inr (Cached_entries (map article_list_entry rows)), w'\<lparr>isConnected := c\<rparr>)"
    by simp
  from r free relist later show ?thesis by simp
qed

theorem fetchArticles_caches_filtered_witness:
  "fst (fetchArticles False stocked_world) = Inr (Remote_rows [free_article]) \<and>
   fst (getOfflineArticles (snd (fetchArticles False stocked_world))) =
     Inr [article_list_entry free_article] \<and>
   fst (fetchArticles True ((snd (fetchArticles False stocked_world))\<lparr>isConnected := Some False\<rparr>)) =
     Inr (Cached_entries [article_list_entry free_article])"
proof -
  have rows: "select_articles True stocked_backend = Inr [free_article]"
    by (simp add: select_articles_def stocked_backend_def empty_backend_def)
  have nofault: "map_of (faults (backend stocked_world)) ''articles'' = None"
    by (simp add: stocked_world_fields stocked_backend_def empty_backend_def)
  have res: "fetchArticles False stocked_world =
      (Inr (Remote_rows [free_article]), snd (fetchArticles False stocked_world))"
    using fetchArticles_remote_success [OF stocked_world_fields(1) nofault, of False "[free_article]"]
      rows by (simp add: stocked_world_fields)
  have acc: "KEYS_ARTICLES \<notin> set (write_rejected stocked_world) \<union> set (read_rejected stocked_world)"
    by (simp add: stocked_world_fields)
  have res1: "fst (fetchArticles False stocked_world) = Inr (Remote_rows [free_article])"
    using res by (metis fst_conv)
  from fetchArticles_caches_filtered [OF stocked_world_fields(1) nofault acc res, of "Some False"]
  show ?thesis
    using res1 by auto
qed



end
